theory Spec2Isabelle
  imports Complex_Main
begin

section \<open>OpenSeaAlertBot: the monitoring cycle of \<^verbatim>\<open>get_nft_alerts\<close>\<close>

text \<open>
  The development embeds the three methods of \<^verbatim>\<open>src/OpenSeaAlertBot.py\<close> that make up
  the monitoring cycle: \<^verbatim>\<open>send_telegram_msg\<close> (lines 155-160), \<^verbatim>\<open>update_spreadsheet\<close>
  (lines 242-271) and \<^verbatim>\<open>get_nft_alerts\<close> (lines 273-370).

  Everything the methods obtain from outside the process (the rendered page, the reply of the
  Telegram endpoint, the availability of the Google sheet) is an explicit input, and
  everything they do to the outside (log lines, pauses, HTTP requests, sheet calls) is an
  explicit output: a list of events, in program order. A Python exception is a value of
  \<open>py_error\<close>; where the source has no handler the error is passed on to the caller.

  Python's \<^verbatim>\<open>float\<close> values are binary64 numbers; here they are exact real numbers, so
  the arithmetic of lines 341 and 350 is idealised. The two agree where every intermediate
  value is a binary64 number (as in the sample runs below) and differ elsewhere: decimal
  ties such as 9.995 round the other way in binary, a huge balance makes the program raise
  \<^verbatim>\<open>OverflowError\<close>, a price below the smallest binary64 number becomes zero, and the
  special values \<^verbatim>\<open>inf\<close> and \<^verbatim>\<open>nan\<close> do not exist here. No statement below is about how
  close the ratio is to the quotient; the statements are about which articles are
  evaluated, alerted and published, and in which order.
\<close>

subsection \<open>Python values and exceptions\<close>

datatype py_error =
    TimeoutException
  | NoSuchElementException
  | ValueError
  | ZeroDivisionError
  | IndexError
  | ConnectionError
  | JSONDecodeError
  | APIError

text \<open>
  \<^verbatim>\<open>round(x, 2)\<close> on an exact real: the nearest multiple of 1/100, a tie going to the even
  neighbour. (Python rounds the binary64 value, which lies beside the decimal tie.)
\<close>

definition round_half_even :: "real \<Rightarrow> int" where
  "round_half_even y =
     (let f = \<lfloor>y\<rfloor>; d = y - of_int f
      in if d < 1 / 2 then f
         else if 1 / 2 < d then f + 1
         else if even f then f else f + 1)"

definition py_round2 :: "real \<Rightarrow> real" where
  "py_round2 x = of_int (round_half_even (x * 100)) / 100"

subsection \<open>Parsing numeric text\<close>

text \<open>
  \<^verbatim>\<open>int(text)\<close> and \<^verbatim>\<open>float(text)\<close> on plain ASCII decimal text: surrounding ASCII
  whitespace is ignored, a sign may lead, \<^verbatim>\<open>int\<close> wants one or more digits, \<^verbatim>\<open>float\<close> wants
  digits with an optional point and an optional exponent. Every other text is a
  \<^verbatim>\<open>ValueError\<close> here (\<open>None\<close>); Python also accepts digit grouping by underscores, the
  literals \<^verbatim>\<open>inf\<close>, \<^verbatim>\<open>infinity\<close> and \<^verbatim>\<open>nan\<close>, and Unicode whitespace and digits, which are
  outside this model.
\<close>

definition is_space :: "char \<Rightarrow> bool" where
  "is_space c = (of_char c \<in> {9, 10, 11, 12, 13, 32 :: nat})"

definition is_digit :: "char \<Rightarrow> bool" where
  "is_digit c = (48 \<le> (of_char c :: nat) \<and> (of_char c :: nat) \<le> 57)"

definition strip :: "string \<Rightarrow> string" where
  "strip s = rev (dropWhile is_space (rev (dropWhile is_space s)))"

definition digits_val :: "string \<Rightarrow> nat" where
  "digits_val ds = foldl (\<lambda>a c. 10 * a + (of_char c - 48)) 0 ds"

fun split_sign :: "string \<Rightarrow> bool \<times> string" where
  "split_sign [] = (False, [])"
| "split_sign (c # cs) =
     (if c = CHR ''-'' then (True, cs)
      else if c = CHR ''+'' then (False, cs)
      else (False, c # cs))"

definition py_int :: "string \<Rightarrow> int option" where
  "py_int s =
     (case split_sign (strip s) of
        (neg, ds) \<Rightarrow>
          if ds \<noteq> [] \<and> list_all is_digit ds
          then Some (if neg then - int (digits_val ds) else int (digits_val ds))
          else None)"

fun exponent :: "string \<Rightarrow> int option" where
  "exponent [] = Some 0"
| "exponent (c # cs) =
     (if c = CHR ''e'' \<or> c = CHR ''E''
      then (case split_sign cs of
              (neg, ds) \<Rightarrow>
                if ds \<noteq> [] \<and> list_all is_digit ds
                then Some (if neg then - int (digits_val ds) else int (digits_val ds))
                else None)
      else None)"

definition pow10 :: "int \<Rightarrow> real" where
  "pow10 e = (if 0 \<le> e then 10 ^ nat e else 1 / 10 ^ nat (- e))"

definition py_float :: "string \<Rightarrow> real option" where
  "py_float s =
     (case split_sign (strip s) of
        (neg, u) \<Rightarrow>
          let ip = takeWhile is_digit u;
              r1 = dropWhile is_digit u;
              fp = (case r1 of
                      [] \<Rightarrow> []
                    | c # r \<Rightarrow> if c = CHR ''.'' then takeWhile is_digit r else []);
              r2 = (case r1 of
                      [] \<Rightarrow> []
                    | c # r \<Rightarrow> if c = CHR ''.'' then dropWhile is_digit r else r1)
          in if ip = [] \<and> fp = [] then None
             else (case exponent r2 of
                     None \<Rightarrow> None
                   | Some e \<Rightarrow>
                       let m = of_nat (digits_val (ip @ fp)) / 10 ^ length fp * pow10 e
                       in Some (if neg then - m else m)))"

text \<open>\<^verbatim>\<open>text.replace(',', '')\<close> of line 341.\<close>

definition remove_commas :: "string \<Rightarrow> string" where
  "remove_commas s = filter (\<lambda>c. c \<noteq> CHR '','') s"

subsection \<open>Configuration, page and channel\<close>

text \<open>The fields of \<^verbatim>\<open>self\<close> that the cycle reads (lines 44-47); none is ever assigned again.\<close>

record settings =
  ratio :: real
  busd_price :: real
  spread_sheet :: string
  work_sheet :: string

text \<open>
  What the browser answers for one \<^verbatim>\<open>article\<close> element during its loop iteration:
  whether the page-level wait of line 340 succeeds, the text of the price element inside
  the article (\<open>None\<close>: \<^verbatim>\<open>find_element\<close> raises), and the \<^verbatim>\<open>href\<close> of its first anchor
  (\<open>None\<close>: no anchor, \<^verbatim>\<open>find_element\<close> raises; \<open>Some None\<close>: an anchor without \<^verbatim>\<open>href\<close>).
\<close>

record listing_item =
  price_visible :: bool
  price_text :: "string option"
  anchor_href :: "string option option"

text \<open>The dictionary \<^verbatim>\<open>collection_stats\<close> of line 352, which is also the alert message.\<close>

record collection_stats =
  Listing_Price :: real
  Account_Value :: int
  Ratio :: real
  Link :: "string option"

text \<open>
  The reply of the Telegram endpoint to one request: no reply at all (\<^verbatim>\<open>requests.get\<close>
  raises), or a status code with a body that is JSON (\<open>Some\<close>) or is not (\<open>None\<close>).
\<close>

datatype reply = NetworkError | Response nat "string option"

datatype store_call = OpenSheet | GetWorksheet | GetRange nat | UpdateCells nat

text \<open>
  The outside world during one pass of the \<^verbatim>\<open>while True\<close> loop: the outcome of the two
  waits, the text of the balance element, the articles in page order, the Telegram reply to
  each message and which calls to the sheet fail.
\<close>

record world =
  balance_visible :: bool
  balance_text :: "string option"
  items_visible :: bool
  articles :: "listing_item list"
  telegram :: "collection_stats \<Rightarrow> reply"
  store_fails :: "store_call \<Rightarrow> bool"

datatype log_msg =
    Getting_trait_balance
  | Waiting_for_items
  | No_item_found
  | Set_Ratio real
  | Condition_matched collection_stats bool
  | Sending_Telegram_message collection_stats
  | Telegram_message_sent
  | Updating_Spreadsheet string
  | Updated_SpreadSheet string string
  | Stats_updated string

datatype event =
    Info log_msg
  | Sleep nat
  | HttpGet collection_stats
  | Store store_call

subsection \<open>\<^verbatim>\<open>send_telegram_msg\<close>\<close>

text \<open>
  Lines 155-160. There is no handler: an exception of \<^verbatim>\<open>requests.get\<close> or of
  \<^verbatim>\<open>response.json()\<close> leaves the method. The status code is never looked at.
\<close>

definition send_telegram_msg :: "world \<Rightarrow> collection_stats \<Rightarrow> event list \<times> (py_error + string)" where
  "send_telegram_msg w msg =
     (case telegram w msg of
        NetworkError \<Rightarrow>
          ([Info (Sending_Telegram_message msg), HttpGet msg], Inl ConnectionError)
      | Response code body \<Rightarrow>
          ([Info (Sending_Telegram_message msg), HttpGet msg, Info Telegram_message_sent],
           case body of None \<Rightarrow> Inl JSONDecodeError | Some j \<Rightarrow> Inr j))"

subsection \<open>The body of the \<^verbatim>\<open>for\<close> loop\<close>

text \<open>Lines 340-347: the price, converted by \<^verbatim>\<open>self.busd_price\<close>, and the link.\<close>

definition get_listing :: "settings \<Rightarrow> listing_item \<Rightarrow> py_error + real \<times> string option" where
  "get_listing cfg it =
     (if \<not> price_visible it then Inl TimeoutException
      else case price_text it of
             None \<Rightarrow> Inl NoSuchElementException
           | Some t \<Rightarrow>
               (case py_float (remove_commas t) of
                  None \<Rightarrow> Inl ValueError
                | Some v \<Rightarrow>
                    (case anchor_href it of
                       None \<Rightarrow> Inl NoSuchElementException
                     | Some url \<Rightarrow> Inr (v * busd_price cfg, url))))"

text \<open>
  Line 350: \<^verbatim>\<open>round(trait_balance / listing_price, 2)\<close>, in exact arithmetic; Python raises
  on a zero divisor.
\<close>

definition get_ratio :: "int \<Rightarrow> real \<Rightarrow> py_error + real" where
  "get_ratio trait_balance listing_price =
     (if listing_price = 0 then Inl ZeroDivisionError
      else Inr (py_round2 (of_int trait_balance / listing_price)))"

text \<open>
  Lines 340-358 for one article: on success the price and the link that lines 361-363
  append.
\<close>

definition get_nft_alerts_item ::
  "settings \<Rightarrow> world \<Rightarrow> int \<Rightarrow> listing_item \<Rightarrow> event list \<times> (py_error + real \<times> string option)" where
  "get_nft_alerts_item cfg w trait_balance it =
     (case get_listing cfg it of
        Inl e \<Rightarrow> ([], Inl e)
      | Inr (listing_price, listing_url) \<Rightarrow>
          (case get_ratio trait_balance listing_price of
             Inl e \<Rightarrow> ([], Inl e)
           | Inr r \<Rightarrow>
               let stats = \<lparr>Listing_Price = listing_price, Account_Value = trait_balance,
                             Ratio = r, Link = listing_url\<rparr>;
                   logged = [Info (Set_Ratio (ratio cfg)),
                             Info (Condition_matched stats (ratio cfg \<le> r))]
               in if ratio cfg \<le> r
                  then (case send_telegram_msg w stats of
                          (ev, Inl e) \<Rightarrow> (logged @ ev, Inl e)
                        | (ev, Inr j) \<Rightarrow> (logged @ ev, Inr (listing_price, listing_url)))
                  else (logged, Inr (listing_price, listing_url))))"

subsection \<open>The \<^verbatim>\<open>for\<close> loop over the articles\<close>

text \<open>The three lists of lines 320-322, filled by lines 361-363.\<close>

record columns =
  listing_prices :: "real list"
  trait_balances :: "int list"
  listing_urls :: "string option list"

text \<open>
  Lines 337-363. The lists are appended to only after the whole body has run for an
  article; an exception raised by the body leaves the loop at once, since nothing
  between line 337 and line 363 catches it.
\<close>

fun get_nft_alerts_items ::
  "settings \<Rightarrow> world \<Rightarrow> int \<Rightarrow> listing_item list \<Rightarrow> columns \<Rightarrow> event list \<times> (py_error + columns)" where
  "get_nft_alerts_items cfg w trait_balance [] acc = ([], Inr acc)"
| "get_nft_alerts_items cfg w trait_balance (it # its) acc =
     (case get_nft_alerts_item cfg w trait_balance it of
        (ev, Inl e) \<Rightarrow> (ev, Inl e)
      | (ev, Inr (listing_price, listing_url)) \<Rightarrow>
          (case get_nft_alerts_items cfg w trait_balance its
                  \<lparr>listing_prices = listing_prices acc @ [listing_price],
                   trait_balances = trait_balances acc @ [trait_balance],
                   listing_urls = listing_urls acc @ [listing_url]\<rparr> of
             (ev', res) \<Rightarrow> (ev @ ev', res)))"

text \<open>Lines 320-322: the lists are made afresh in every pass.\<close>

definition no_columns :: columns where
  "no_columns = \<lparr>listing_prices = [], trait_balances = [], listing_urls = []\<rparr>"

subsection \<open>\<^verbatim>\<open>update_spreadsheet\<close>\<close>

datatype cell_value = Blank | Number real | Whole int | Text string

record cell =
  cell_row :: nat
  cell_col :: nat
  cell_val :: cell_value

text \<open>A worksheet maps (row, column) to the value shown there.\<close>

type_synonym sheet = "nat \<times> nat \<Rightarrow> cell_value"

text \<open>
  \<^verbatim>\<open>pd.DataFrame(collection_stats)\<close> of line 367 refuses columns of different lengths.
\<close>

definition DataFrame :: "columns \<Rightarrow> py_error + columns" where
  "DataFrame cs =
     (if length (listing_prices cs) = length (trait_balances cs)
         \<and> length (trait_balances cs) = length (listing_urls cs)
      then Inr cs else Inl ValueError)"

text \<open>
  \<^verbatim>\<open>worksheet.range(f'A2:A{n + 1}')\<close>: the cells of one column between the two rows the
  label names, each with the value the sheet holds. The library puts the two corners of a
  label in order, so for \<open>n \<ge> 1\<close> these are rows 2 to \<open>n + 1\<close>, and for \<open>n = 0\<close> the label
  \<^verbatim>\<open>A2:A1\<close> names rows 1 and 2.
\<close>

definition range_cells :: "sheet \<Rightarrow> nat \<Rightarrow> nat \<Rightarrow> cell list" where
  "range_cells sh c n =
     map (\<lambda>r. \<lparr>cell_row = r, cell_col = c, cell_val = sh (r, c)\<rparr>)
       [min 2 (n + 1) ..< max 2 (n + 1) + 1]"

text \<open>\<^verbatim>\<open>worksheet.update_cells(cell_list)\<close>: every cell of the list is written to the sheet.\<close>

definition update_cells :: "sheet \<Rightarrow> cell list \<Rightarrow> sheet" where
  "update_cells sh cs = foldl (\<lambda>s c. s((cell_row c, cell_col c) := cell_val c)) sh cs"

definition url_value :: "string option \<Rightarrow> cell_value" where
  "url_value u = (case u of None \<Rightarrow> Blank | Some t \<Rightarrow> Text t)"

text \<open>
  Lines 261-264: the loop runs over the cells of the first column (\<open>k\<close> of them are still
  to come, \<open>i\<close> is the position) and indexes the three value lists and the other two cell
  lists by position; an index out of range raises.
\<close>

fun assign_cells ::
  "nat \<Rightarrow> nat \<Rightarrow> columns \<Rightarrow> cell list \<times> cell list \<times> cell list
     \<Rightarrow> py_error + cell list \<times> cell list \<times> cell list" where
  "assign_cells i 0 df cls = Inr cls"
| "assign_cells i (Suc k) df (c1, c2, c3) =
     (if i < length (listing_prices df) \<and> i < length (trait_balances df)
         \<and> i < length (listing_urls df) \<and> i < length c2 \<and> i < length c3
      then assign_cells (Suc i) k df
             (c1[i := (c1 ! i)\<lparr>cell_val := Number (listing_prices df ! i)\<rparr>],
              c2[i := (c2 ! i)\<lparr>cell_val := Whole (trait_balances df ! i)\<rparr>],
              c3[i := (c3 ! i)\<lparr>cell_val := url_value (listing_urls df ! i)\<rparr>])
      else Inl IndexError)"

text \<open>
  Lines 242-271. The result lists the events, the contents of the sheet after each
  \<^verbatim>\<open>update_cells\<close> call that went through (what a viewer of the sheet can see, in order),
  and the error if a call to the sheet raised. Nothing in the method catches an error.
\<close>

definition update_spreadsheet ::
  "settings \<Rightarrow> world \<Rightarrow> sheet \<Rightarrow> columns \<Rightarrow> event list \<times> sheet list \<times> py_error option" where
  "update_spreadsheet cfg w sh df =
     (let n = length (listing_prices df);
          e0 = [Info (Updating_Spreadsheet (spread_sheet cfg)), Store OpenSheet]
      in if store_fails w OpenSheet then (e0, [], Some APIError)
      else let e1 = e0 @ [Store GetWorksheet]
      in if store_fails w GetWorksheet then (e1, [], Some APIError)
      else let e2 = e1 @ [Store (GetRange 1)]
      in if store_fails w (GetRange 1) then (e2, [], Some APIError)
      else let e3 = e2 @ [Store (GetRange 2)]
      in if store_fails w (GetRange 2) then (e3, [], Some APIError)
      else let e4 = e3 @ [Store (GetRange 3)]
      in if store_fails w (GetRange 3) then (e4, [], Some APIError)
      else case assign_cells 0 (length (range_cells sh 1 n)) df
                  (range_cells sh 1 n, range_cells sh 2 n, range_cells sh 3 n) of
             Inl e \<Rightarrow> (e4, [], Some e)
           | Inr (c1, c2, c3) \<Rightarrow>
               let e5 = e4 @ [Store (UpdateCells 1)]
               in if store_fails w (UpdateCells 1) then (e5, [], Some APIError)
               else let s1 = update_cells sh c1; e6 = e5 @ [Store (UpdateCells 2)]
               in if store_fails w (UpdateCells 2) then (e6, [s1], Some APIError)
               else let s2 = update_cells s1 c2; e7 = e6 @ [Store (UpdateCells 3)]
               in if store_fails w (UpdateCells 3) then (e7, [s1, s2], Some APIError)
               else let s3 = update_cells s2 c3
               in (e7 @ [Info (Updated_SpreadSheet (spread_sheet cfg) (work_sheet cfg))],
                   [s1, s2, s3], None))"

subsection \<open>One pass of the \<^verbatim>\<open>while True\<close> loop\<close>

text \<open>
  How a pass ends: it falls through to the next pass after the publish (\<open>Published\<close>),
  it reaches \<^verbatim>\<open>continue\<close> at line 333 (\<open>Empty_market\<close>), it reaches \<^verbatim>\<open>return\<close> at line
  314 (\<open>Returned\<close>), or an exception leaves the method (\<open>Raised\<close>).
\<close>

datatype pass_end = Published | Empty_market | Returned | Raised py_error

record pass =
  events :: "event list"
  sheets :: "sheet list"
  ending :: pass_end

text \<open>
  Lines 307-363: the balance, the wait for the items and the \<^verbatim>\<open>for\<close> loop. \<open>Inr\<close> carries
  the balance read at line 317 and the three lists as they stand at line 365.
\<close>

definition get_nft_alerts_collect ::
  "settings \<Rightarrow> world \<Rightarrow> event list \<times> (pass_end + int \<times> columns)" where
  "get_nft_alerts_collect cfg w =
     (if \<not> balance_visible w then ([Info Getting_trait_balance], Inl Returned)
      else
        (case balance_text w of
           None \<Rightarrow> ([Info Getting_trait_balance, Sleep 5], Inl (Raised NoSuchElementException))
         | Some t \<Rightarrow>
             (case py_int t of
                None \<Rightarrow> ([Info Getting_trait_balance, Sleep 5], Inl (Raised ValueError))
              | Some trait_balance \<Rightarrow>
                  (if \<not> items_visible w
                   then ([Info Getting_trait_balance, Sleep 5,
                          Info Waiting_for_items, Info No_item_found, Sleep 3], Inl Empty_market)
                   else
                     (case get_nft_alerts_items cfg w trait_balance (articles w) no_columns of
                        (ev, Inl e) \<Rightarrow>
                          ([Info Getting_trait_balance, Sleep 5, Info Waiting_for_items, Sleep 3] @ ev,
                           Inl (Raised e))
                      | (ev, Inr cs) \<Rightarrow>
                          ([Info Getting_trait_balance, Sleep 5, Info Waiting_for_items, Sleep 3] @ ev,
                           Inr (trait_balance, cs)))))))"

text \<open>Lines 307-370: one whole pass, starting from the sheet as the last pass left it.\<close>

definition get_nft_alerts_pass :: "settings \<Rightarrow> sheet \<Rightarrow> world \<Rightarrow> pass" where
  "get_nft_alerts_pass cfg sh w =
     (case get_nft_alerts_collect cfg w of
        (ev, Inl stop) \<Rightarrow> \<lparr>events = ev, sheets = [], ending = stop\<rparr>
      | (ev, Inr (trait_balance, cs)) \<Rightarrow>
          (case DataFrame cs of
             Inl e \<Rightarrow> \<lparr>events = ev, sheets = [], ending = Raised e\<rparr>
           | Inr df \<Rightarrow>
               (case update_spreadsheet cfg w sh df of
                  (ev', shs, Some e) \<Rightarrow> \<lparr>events = ev @ ev', sheets = shs, ending = Raised e\<rparr>
                | (ev', shs, None) \<Rightarrow>
                    \<lparr>events = ev @ ev' @ [Info (Stats_updated (spread_sheet cfg))],
                     sheets = shs, ending = Published\<rparr>)))"

subsection \<open>The loop\<close>

text \<open>
  Lines 306-370. The loop has no exit condition, so a run is described by the passes it
  makes against a given sequence of worlds, one world per pass: the run stops early after a
  pass that returned or raised, and otherwise it has used up the worlds supplied and is
  still looping. The only thing one pass hands to the next is the sheet.
\<close>

definition continues :: "pass_end \<Rightarrow> bool" where
  "continues e = (e = Published \<or> e = Empty_market)"

fun get_nft_alerts_loop :: "settings \<Rightarrow> sheet \<Rightarrow> world list \<Rightarrow> pass list" where
  "get_nft_alerts_loop cfg sh [] = []"
| "get_nft_alerts_loop cfg sh (w # ws) =
     (let p = get_nft_alerts_pass cfg sh w
      in if continues (ending p)
         then p # get_nft_alerts_loop cfg (last (sh # sheets p)) ws
         else [p])"

text \<open>
  Lines 273-370, from the wait for the collection header on: a failed wait returns before
  the loop is entered (lines 285-293).
\<close>

definition get_nft_alerts :: "settings \<Rightarrow> bool \<Rightarrow> sheet \<Rightarrow> world list \<Rightarrow> pass list" where
  "get_nft_alerts cfg header_visible sh ws =
     (if header_visible then get_nft_alerts_loop cfg sh ws else [])"

text \<open>Whether the method is still looping after the passes made against \<open>ws\<close>.\<close>

definition still_running :: "settings \<Rightarrow> sheet \<Rightarrow> world list \<Rightarrow> bool" where
  "still_running cfg sh ws =
     (let ps = get_nft_alerts_loop cfg sh ws
      in length ps = length ws \<and> list_all (\<lambda>p. continues (ending p)) ps)"

subsection \<open>Reading a trace\<close>

text \<open>The messages sent to Telegram and the calls made to the sheet, in order.\<close>

fun alerts :: "event list \<Rightarrow> collection_stats list" where
  "alerts [] = []"
| "alerts (HttpGet m # es) = m # alerts es"
| "alerts (e # es) = alerts es"

fun store_calls :: "event list \<Rightarrow> store_call list" where
  "store_calls [] = []"
| "store_calls (Store c # es) = c # store_calls es"
| "store_calls (e # es) = store_calls es"


subsection \<open>Reference behaviour and sample inputs\<close>

text \<open>
  The alerts a pass owes for a page: one message for each article, in page order, whose
  ratio reaches the threshold. It is a function of the settings, the balance and the
  articles alone.
\<close>

fun due_alerts :: "settings \<Rightarrow> int \<Rightarrow> listing_item list \<Rightarrow> collection_stats list" where
  "due_alerts cfg b [] = []"
| "due_alerts cfg b (it # its) =
     (case get_listing cfg it of
        Inl e \<Rightarrow> []
      | Inr (p, u) \<Rightarrow>
          (case get_ratio b p of
             Inl e \<Rightarrow> []
           | Inr r \<Rightarrow>
               if ratio cfg \<le> r
               then [\<lparr>Listing_Price = p, Account_Value = b, Ratio = r, Link = u\<rparr>]
               else []))
     @ due_alerts cfg b its"


text \<open>A pass reaches the publish step when lines 307-363 run through without a stop.\<close>

definition reaches_publish :: "settings \<Rightarrow> world \<Rightarrow> bool" where
  "reaches_publish cfg w =
     (case snd (get_nft_alerts_collect cfg w) of Inl stop \<Rightarrow> False | Inr x \<Rightarrow> True)"

text \<open>
  A world in which the wait for the listing items times out: the pass gets as far as that
  wait (the balance is shown and reads as an integer) and no article appears.
\<close>

definition items_timeout :: "world \<Rightarrow> bool" where
  "items_timeout w =
     (balance_visible w
      \<and> (case balance_text w of None \<Rightarrow> False | Some t \<Rightarrow> py_int t \<noteq> None)
      \<and> \<not> items_visible w)"

text \<open>What a pass does when the wait for the items times out (lines 307-317, 324-333).\<close>

definition empty_market_pass :: pass where
  "empty_market_pass =
     \<lparr>events = [Info Getting_trait_balance, Sleep 5,
                Info Waiting_for_items, Info No_item_found, Sleep 3],
      sheets = [], ending = Empty_market\<rparr>"

text \<open>The eight calls a publish makes to the sheet, in program order.\<close>

definition publish_calls :: "store_call list" where
  "publish_calls =
     [OpenSheet, GetWorksheet, GetRange 1, GetRange 2, GetRange 3,
      UpdateCells 1, UpdateCells 2, UpdateCells 3]"

text \<open>
  The calls a publish makes when some call fails: those up to and including the first one
  that fails, each once.
\<close>

definition calls_until_failure :: "world \<Rightarrow> store_call list" where
  "calls_until_failure w =
     take (Suc (length (takeWhile (\<lambda>c. \<not> store_fails w c) publish_calls))) publish_calls"

text \<open>A world in which no call to the sheet fails.\<close>

definition publish_unhindered :: "world \<Rightarrow> bool" where
  "publish_unhindered w = list_all (\<lambda>c. \<not> store_fails w c) publish_calls"

text \<open>Sample settings, articles, worlds and sheets for the instances below.\<close>

definition sample_settings :: settings where
  "sample_settings =
     \<lparr>ratio = 20, busd_price = 1, spread_sheet = ''YN Ratio Sheet'', work_sheet = ''Sheet1''\<rparr>"

definition listed :: "string \<Rightarrow> string \<Rightarrow> listing_item" where
  "listed t u = \<lparr>price_visible = True, price_text = Some t, anchor_href = Some (Some u)\<rparr>"

definition market :: "listing_item list \<Rightarrow> world" where
  "market its =
     \<lparr>balance_visible = True, balance_text = Some ''100000'', items_visible = True,
      articles = its, telegram = (\<lambda>m. Response 200 (Some ''{}'')),
      store_fails = (\<lambda>c. False)\<rparr>"

definition blank_sheet :: sheet where
  "blank_sheet = (\<lambda>p. Blank)"

definition old_sheet :: sheet where
  "old_sheet =
     blank_sheet((2, 1) := Number 9000, (2, 2) := Whole 70000, (2, 3) := Text ''https://opensea.io/a/9'')"

section \<open>Properties\<close>

subsection \<open>Traces\<close>

lemma alerts_append: "alerts (xs @ ys) = alerts xs @ alerts ys"
  by (induction xs rule: alerts.induct) simp_all

lemma store_calls_append: "store_calls (xs @ ys) = store_calls xs @ store_calls ys"
  by (induction xs rule: store_calls.induct) simp_all

lemma send_telegram_msg_trace:
  "send_telegram_msg w m = (ev, r) \<Longrightarrow> store_calls ev = [] \<and> alerts ev = [m]"
  by (auto simp: send_telegram_msg_def split: reply.splits)

lemma item_store_calls:
  "get_nft_alerts_item cfg w b it = (ev, r) \<Longrightarrow> store_calls ev = []"
  by (auto simp: get_nft_alerts_item_def Let_def store_calls_append
      split: sum.splits prod.splits if_splits dest: send_telegram_msg_trace)

lemma items_store_calls:
  "get_nft_alerts_items cfg w b its acc = (ev, r) \<Longrightarrow> store_calls ev = []"
proof (induction its arbitrary: acc ev)
  case Nil
  then show ?case by simp
next
  case (Cons it its)
  then show ?case
    by (auto simp: store_calls_append split: prod.splits sum.splits dest: item_store_calls)
qed

subsection \<open>The \<^verbatim>\<open>for\<close> loop\<close>

lemma items_append:
  "get_nft_alerts_items cfg w b pre acc = (ev, Inr cs) \<Longrightarrow>
   get_nft_alerts_items cfg w b (pre @ post) acc =
     (ev @ fst (get_nft_alerts_items cfg w b post cs), snd (get_nft_alerts_items cfg w b post cs))"
proof (induction pre arbitrary: acc ev)
  case Nil
  then show ?case by simp
next
  case (Cons it pre)
  then show ?case
    by (auto split: prod.splits sum.splits)
qed

lemma items_abort:
  assumes "get_nft_alerts_items cfg w b pre acc = (ev, Inr cs)"
    and "get_nft_alerts_item cfg w b it = (ev1, Inl e)"
  shows "get_nft_alerts_items cfg w b (pre @ it # post) acc = (ev @ ev1, Inl e)"
  using items_append [OF assms(1), of "it # post"] assms(2) by simp

lemma items_columns:
  "get_nft_alerts_items cfg w b its acc = (ev, Inr cs) \<Longrightarrow>
   (\<exists>ps us. length ps = length its \<and> length us = length its
      \<and> listing_prices cs = listing_prices acc @ ps
      \<and> trait_balances cs = trait_balances acc @ replicate (length its) b
      \<and> listing_urls cs = listing_urls acc @ us
      \<and> map (get_listing cfg) its = map Inr (zip ps us))"
proof (induction its arbitrary: acc ev)
  case Nil
  then show ?case by simp
next
  case (Cons it its)
  from Cons.prems obtain e1 p u e2 where
    step: "get_nft_alerts_item cfg w b it = (e1, Inr (p, u))" and
    rest: "get_nft_alerts_items cfg w b its
             \<lparr>listing_prices = listing_prices acc @ [p],
              trait_balances = trait_balances acc @ [b],
              listing_urls = listing_urls acc @ [u]\<rparr> = (e2, Inr cs)"
    by (auto split: prod.splits sum.splits)
  from step have gl: "get_listing cfg it = Inr (p, u)"
    by (auto simp: get_nft_alerts_item_def Let_def split: sum.splits prod.splits if_splits)
  from Cons.IH [OF rest] obtain ps us where
    "length ps = length its" "length us = length its"
    "listing_prices cs = (listing_prices acc @ [p]) @ ps"
    "trait_balances cs = (trait_balances acc @ [b]) @ replicate (length its) b"
    "listing_urls cs = (listing_urls acc @ [u]) @ us"
    "map (get_listing cfg) its = map Inr (zip ps us)"
    by auto
  with gl show ?case
    by (intro exI [of _ "p # ps"] exI [of _ "u # us"]) simp
qed

subsection \<open>Passes and the loop\<close>

lemma collect_raised_in_items:
  assumes "balance_visible w" "balance_text w = Some t" "py_int t = Some b" "items_visible w"
    and "get_nft_alerts_items cfg w b (articles w) no_columns = (ev, Inl e)"
  shows "get_nft_alerts_collect cfg w =
           ([Info Getting_trait_balance, Sleep 5, Info Waiting_for_items, Sleep 3] @ ev,
            Inl (Raised e))"
  using assms by (simp add: get_nft_alerts_collect_def)

lemma pass_stopped:
  "get_nft_alerts_collect cfg w = (ev, Inl stop) \<Longrightarrow>
   get_nft_alerts_pass cfg sh w = \<lparr>events = ev, sheets = [], ending = stop\<rparr>"
  by (simp add: get_nft_alerts_pass_def)

lemma loop_ends:
  "\<not> continues (ending (get_nft_alerts_pass cfg sh w)) \<Longrightarrow>
   get_nft_alerts_loop cfg sh (w # ws) = [get_nft_alerts_pass cfg sh w]"
  by (simp add: Let_def)

lemma loop_nth:
  "i < length (get_nft_alerts_loop cfg sh ws) \<Longrightarrow>
   i < length ws \<and> (\<exists>sh'. get_nft_alerts_loop cfg sh ws ! i = get_nft_alerts_pass cfg sh' (ws ! i))"
proof (induction ws arbitrary: sh i)
  case Nil
  then show ?case by simp
next
  case (Cons w ws)
  show ?case
  proof (cases i)
    case 0
    then show ?thesis by (auto simp: Let_def)
  next
    case (Suc k)
    with Cons.prems have c: "continues (ending (get_nft_alerts_pass cfg sh w))"
      by (auto simp: Let_def split: if_splits)
    with Cons.prems Suc
    have "k < length (get_nft_alerts_loop cfg (last (sh # sheets (get_nft_alerts_pass cfg sh w))) ws)"
      by (simp add: Let_def)
    from Cons.IH [OF this] c Suc show ?thesis
      by (auto simp: Let_def)
  qed
qed

lemma pass_raised_in_items:
  assumes "balance_visible w" "balance_text w = Some t" "py_int t = Some b" "items_visible w"
    and "articles w = pre @ it # post"
    and "get_nft_alerts_items cfg w b pre no_columns = (ev, Inr cs)"
    and "get_nft_alerts_item cfg w b it = (ev1, Inl e)"
  shows "get_nft_alerts_pass cfg sh w =
           \<lparr>events = [Info Getting_trait_balance, Sleep 5, Info Waiting_for_items, Sleep 3] @ ev @ ev1,
            sheets = [], ending = Raised e\<rparr>"
proof -
  from items_abort [OF assms(6) assms(7), of post] assms(5)
  have "get_nft_alerts_items cfg w b (articles w) no_columns = (ev @ ev1, Inl e)"
    by simp
  from collect_raised_in_items [OF assms(1-4) this] show ?thesis
    by (rule pass_stopped)
qed

lemma raised_pass_ends_loop:
  "ending (get_nft_alerts_pass cfg sh w) = Raised e \<Longrightarrow>
   get_nft_alerts_loop cfg sh (w # ws) = [get_nft_alerts_pass cfg sh w]"
  by (rule loop_ends) (simp add: continues_def)

subsection \<open>The alerts of a pass\<close>

lemma item_alerts:
  "get_nft_alerts_item cfg w b it = (ev, Inr (p, u)) \<Longrightarrow> alerts ev = due_alerts cfg b [it]"
  by (auto simp: get_nft_alerts_item_def Let_def alerts_append
      split: sum.splits prod.splits if_splits dest: send_telegram_msg_trace)

lemma due_alerts_append: "due_alerts cfg b (xs @ ys) = due_alerts cfg b xs @ due_alerts cfg b ys"
  by (induction xs) simp_all

lemma items_alerts:
  "get_nft_alerts_items cfg w b its acc = (ev, Inr cs) \<Longrightarrow> alerts ev = due_alerts cfg b its"
proof (induction its arbitrary: acc ev)
  case Nil
  then show ?case by simp
next
  case (Cons it its)
  from Cons.prems obtain e1 p u e2 where
    step: "get_nft_alerts_item cfg w b it = (e1, Inr (p, u))" and
    rest: "get_nft_alerts_items cfg w b its
             \<lparr>listing_prices = listing_prices acc @ [p],
              trait_balances = trait_balances acc @ [b],
              listing_urls = listing_urls acc @ [u]\<rparr> = (e2, Inr cs)" and
    ev: "ev = e1 @ e2"
    by (auto split: prod.splits sum.splits)
  have "due_alerts cfg b (it # its) = due_alerts cfg b [it] @ due_alerts cfg b its"
    using due_alerts_append [of cfg b "[it]" its] by simp
  with item_alerts [OF step] Cons.IH [OF rest] ev show ?case
    by (simp add: alerts_append)
qed

lemma update_spreadsheet_alerts:
  "update_spreadsheet cfg w sh df = (ev, shs, r) \<Longrightarrow> alerts ev = []"
  by (auto simp: update_spreadsheet_def Let_def split: if_splits sum.splits prod.splits)

lemma collect_alerts:
  assumes "get_nft_alerts_collect cfg w = (ev, Inr (b, cs))"
  shows "\<exists>t. balance_text w = Some t \<and> py_int t = Some b \<and> alerts ev = due_alerts cfg b (articles w)"
proof -
  from assms obtain t ev' where
    t: "balance_text w = Some t" "py_int t = Some b" and
    its: "get_nft_alerts_items cfg w b (articles w) no_columns = (ev', Inr cs)" and
    ev: "ev = [Info Getting_trait_balance, Sleep 5, Info Waiting_for_items, Sleep 3] @ ev'"
    by (auto simp: get_nft_alerts_collect_def
        split: if_splits option.splits prod.splits sum.splits)
  from items_alerts [OF its] t ev show ?thesis
    by simp
qed

lemma pass_alerts:
  assumes "get_nft_alerts_collect cfg w = (ev, r)"
  shows "alerts (events (get_nft_alerts_pass cfg sh w)) = alerts ev"
  using assms
  by (auto simp: get_nft_alerts_pass_def alerts_append
      split: sum.splits prod.splits option.splits dest: update_spreadsheet_alerts)

lemma items_timeout_pass:
  "items_timeout w \<Longrightarrow> get_nft_alerts_pass cfg sh w = empty_market_pass"
  by (auto simp: items_timeout_def get_nft_alerts_pass_def get_nft_alerts_collect_def
      empty_market_pass_def split: option.splits)

subsection \<open>Cells\<close>

lemma list_update_step:
  assumes "\<forall>j < length c. d ! j =
             (if Suc i \<le> j \<and> j < Suc i + k then g j (c[i := g i (c ! i)] ! j)
              else c[i := g i (c ! i)] ! j)"
  shows "\<forall>j < length c. d ! j = (if i \<le> j \<and> j < i + Suc k then g j (c ! j) else c ! j)"
proof (intro allI impI)
  fix j assume j: "j < length c"
  show "d ! j = (if i \<le> j \<and> j < i + Suc k then g j (c ! j) else c ! j)"
  proof (cases "j = i")
    case True
    with assms j show ?thesis by simp
  next
    case False
    with assms j show ?thesis by (auto simp: nth_list_update)
  qed
qed

lemma assign_cells_ok:
  "i + k \<le> length (listing_prices df) \<Longrightarrow> i + k \<le> length (trait_balances df) \<Longrightarrow>
   i + k \<le> length (listing_urls df) \<Longrightarrow> i + k \<le> length c2 \<Longrightarrow> i + k \<le> length c3 \<Longrightarrow>
   \<exists>d1 d2 d3. assign_cells i k df (c1, c2, c3) = Inr (d1, d2, d3)
     \<and> length d1 = length c1 \<and> length d2 = length c2 \<and> length d3 = length c3
     \<and> (\<forall>j < length c1. d1 ! j =
          (if i \<le> j \<and> j < i + k then (c1 ! j)\<lparr>cell_val := Number (listing_prices df ! j)\<rparr> else c1 ! j))
     \<and> (\<forall>j < length c2. d2 ! j =
          (if i \<le> j \<and> j < i + k then (c2 ! j)\<lparr>cell_val := Whole (trait_balances df ! j)\<rparr> else c2 ! j))
     \<and> (\<forall>j < length c3. d3 ! j =
          (if i \<le> j \<and> j < i + k then (c3 ! j)\<lparr>cell_val := url_value (listing_urls df ! j)\<rparr> else c3 ! j))"
proof (induction k arbitrary: i c1 c2 c3)
  case 0
  then show ?case by auto
next
  case (Suc k)
  let ?c1 = "c1[i := (c1 ! i)\<lparr>cell_val := Number (listing_prices df ! i)\<rparr>]"
  let ?c2 = "c2[i := (c2 ! i)\<lparr>cell_val := Whole (trait_balances df ! i)\<rparr>]"
  let ?c3 = "c3[i := (c3 ! i)\<lparr>cell_val := url_value (listing_urls df ! i)\<rparr>]"
  from Suc.prems have step:
    "assign_cells i (Suc k) df (c1, c2, c3) = assign_cells (Suc i) k df (?c1, ?c2, ?c3)"
    by simp
  from Suc.prems have
    "Suc i + k \<le> length (listing_prices df)" "Suc i + k \<le> length (trait_balances df)"
    "Suc i + k \<le> length (listing_urls df)" "Suc i + k \<le> length ?c2" "Suc i + k \<le> length ?c3"
    by simp_all
  from Suc.IH [OF this, of ?c1] obtain d1 d2 d3 where
    r: "assign_cells (Suc i) k df (?c1, ?c2, ?c3) = Inr (d1, d2, d3)" and
    l: "length d1 = length c1" "length d2 = length c2" "length d3 = length c3" and
    n1: "\<forall>j < length c1. d1 ! j =
          (if Suc i \<le> j \<and> j < Suc i + k then (?c1 ! j)\<lparr>cell_val := Number (listing_prices df ! j)\<rparr> else ?c1 ! j)" and
    n2: "\<forall>j < length c2. d2 ! j =
          (if Suc i \<le> j \<and> j < Suc i + k then (?c2 ! j)\<lparr>cell_val := Whole (trait_balances df ! j)\<rparr> else ?c2 ! j)" and
    n3: "\<forall>j < length c3. d3 ! j =
          (if Suc i \<le> j \<and> j < Suc i + k then (?c3 ! j)\<lparr>cell_val := url_value (listing_urls df ! j)\<rparr> else ?c3 ! j)"
    by auto
  have "\<forall>j < length c1. d1 ! j =
          (if i \<le> j \<and> j < i + Suc k then (c1 ! j)\<lparr>cell_val := Number (listing_prices df ! j)\<rparr> else c1 ! j)"
    using list_update_step [of c1 d1 i k "\<lambda>j x. x\<lparr>cell_val := Number (listing_prices df ! j)\<rparr>"] n1
    by simp
  moreover have "\<forall>j < length c2. d2 ! j =
          (if i \<le> j \<and> j < i + Suc k then (c2 ! j)\<lparr>cell_val := Whole (trait_balances df ! j)\<rparr> else c2 ! j)"
    using list_update_step [of c2 d2 i k "\<lambda>j x. x\<lparr>cell_val := Whole (trait_balances df ! j)\<rparr>"] n2
    by simp
  moreover have "\<forall>j < length c3. d3 ! j =
          (if i \<le> j \<and> j < i + Suc k then (c3 ! j)\<lparr>cell_val := url_value (listing_urls df ! j)\<rparr> else c3 ! j)"
    using list_update_step [of c3 d3 i k "\<lambda>j x. x\<lparr>cell_val := url_value (listing_urls df ! j)\<rparr>"] n3
    by simp
  ultimately show ?case
    using step r l by simp
qed

lemma update_cells_snoc:
  "update_cells sh (cs @ [c]) = (update_cells sh cs)((cell_row c, cell_col c) := cell_val c)"
  by (simp add: update_cells_def)

lemma update_cells_column:
  "(\<forall>j < length cs. cell_row (cs ! j) = j + 2 \<and> cell_col (cs ! j) = c) \<Longrightarrow>
   update_cells sh cs (r, c') =
     (if c' = c \<and> 2 \<le> r \<and> r < length cs + 2 then cell_val (cs ! (r - 2)) else sh (r, c'))"
proof (induction cs rule: rev_induct)
  case Nil
  then show ?case by (auto simp: update_cells_def)
next
  case (snoc x xs)
  have xs: "\<forall>j < length xs. cell_row (xs ! j) = j + 2 \<and> cell_col (xs ! j) = c"
  proof (intro allI impI)
    fix j assume "j < length xs"
    with snoc.prems [rule_format, of j] show "cell_row (xs ! j) = j + 2 \<and> cell_col (xs ! j) = c"
      by (simp add: nth_append)
  qed
  from snoc.prems [rule_format, of "length xs"]
  have x: "cell_row x = length xs + 2" "cell_col x = c" by simp_all
  show ?case
    using snoc.IH [OF xs] x
    by (auto simp: update_cells_snoc nth_append)
qed

lemma range_cells_rows:
  "1 \<le> n \<Longrightarrow>
   range_cells sh c n = map (\<lambda>r. \<lparr>cell_row = r, cell_col = c, cell_val = sh (r, c)\<rparr>) [2 ..< n + 2]"
  by (simp add: range_cells_def min_def max_def del: upt_Suc)

lemma length_range_cells: "1 \<le> n \<Longrightarrow> length (range_cells sh c n) = n"
  by (simp add: range_cells_rows del: upt_Suc)

lemma nth_range_cells:
  assumes "j < n"
  shows "range_cells sh c n ! j = \<lparr>cell_row = j + 2, cell_col = c, cell_val = sh (j + 2, c)\<rparr>"
proof -
  from assms have "j < length [2 ..< n + 2]" and "[2 ..< n + 2] ! j = j + 2" and "1 \<le> n"
    by (simp_all del: upt_Suc)
  then show ?thesis
    by (simp add: range_cells_rows del: upt_Suc)
qed

lemma update_spreadsheet_empty:
  assumes "listing_prices df = []" and "\<not> store_fails w OpenSheet" and "\<not> store_fails w GetWorksheet"
    and "\<not> store_fails w (GetRange 1)" and "\<not> store_fails w (GetRange 2)"
    and "\<not> store_fails w (GetRange 3)"
  shows "update_spreadsheet cfg w sh df =
           ([Info (Updating_Spreadsheet (spread_sheet cfg)),
             Store OpenSheet, Store GetWorksheet,
             Store (GetRange 1), Store (GetRange 2), Store (GetRange 3)],
            [], Some IndexError)"
  using assms by (simp add: update_spreadsheet_def Let_def range_cells_def)

lemma assign_ranges:
  assumes "length (trait_balances df) = length (listing_prices df)"
    and "length (listing_urls df) = length (listing_prices df)"
    and "n = length (listing_prices df)" and "1 \<le> n"
  shows "\<exists>d1 d2 d3.
           assign_cells 0 n df (range_cells sh 1 n, range_cells sh 2 n, range_cells sh 3 n)
             = Inr (d1, d2, d3)
         \<and> length d1 = n \<and> length d2 = n \<and> length d3 = n
         \<and> (\<forall>j < n. d1 ! j = \<lparr>cell_row = j + 2, cell_col = 1, cell_val = Number (listing_prices df ! j)\<rparr>)
         \<and> (\<forall>j < n. d2 ! j = \<lparr>cell_row = j + 2, cell_col = 2, cell_val = Whole (trait_balances df ! j)\<rparr>)
         \<and> (\<forall>j < n. d3 ! j = \<lparr>cell_row = j + 2, cell_col = 3, cell_val = url_value (listing_urls df ! j)\<rparr>)"
proof -
  from assms have
    "0 + n \<le> length (listing_prices df)" "0 + n \<le> length (trait_balances df)"
    "0 + n \<le> length (listing_urls df)" "0 + n \<le> length (range_cells sh 2 n)"
    "0 + n \<le> length (range_cells sh 3 n)"
    by (simp_all add: length_range_cells)
  from assign_cells_ok [OF this, of "range_cells sh 1 n"] assms(4) show ?thesis
    by (auto simp: length_range_cells nth_range_cells)
qed

lemma update_spreadsheet_fails:
  assumes "length (trait_balances df) = length (listing_prices df)"
    and "length (listing_urls df) = length (listing_prices df)"
    and "c \<in> set publish_calls" and "store_fails w c"
    and "listing_prices df \<noteq> []"
  shows "\<exists>ev shs. update_spreadsheet cfg w sh df = (ev, shs, Some APIError)
           \<and> store_calls ev = calls_until_failure w"
proof -
  from assms(5) have n: "1 \<le> length (listing_prices df)"
    by (cases "listing_prices df") simp_all
  from assign_ranges [OF assms(1,2) refl n, of sh] obtain d1 d2 d3 where
    "assign_cells 0 (length (listing_prices df)) df
       (range_cells sh 1 (length (listing_prices df)),
        range_cells sh 2 (length (listing_prices df)),
        range_cells sh 3 (length (listing_prices df))) = Inr (d1, d2, d3)"
    by blast
  with assms(3,4) n show ?thesis
    by (auto simp: update_spreadsheet_def Let_def publish_calls_def calls_until_failure_def
        length_range_cells)
qed

lemma update_spreadsheet_ok:
  assumes "length (trait_balances df) = length (listing_prices df)"
    and "length (listing_urls df) = length (listing_prices df)"
    and "publish_unhindered w"
    and "n = length (listing_prices df)" and "1 \<le> n"
  shows "\<exists>d1 d2 d3.
           update_spreadsheet cfg w sh df =
             ([Info (Updating_Spreadsheet (spread_sheet cfg)),
               Store OpenSheet, Store GetWorksheet,
               Store (GetRange 1), Store (GetRange 2), Store (GetRange 3),
               Store (UpdateCells 1), Store (UpdateCells 2), Store (UpdateCells 3),
               Info (Updated_SpreadSheet (spread_sheet cfg) (work_sheet cfg))],
              [update_cells sh d1,
               update_cells (update_cells sh d1) d2,
               update_cells (update_cells (update_cells sh d1) d2) d3],
              None)
         \<and> length d1 = n \<and> length d2 = n \<and> length d3 = n
         \<and> (\<forall>j < n. d1 ! j = \<lparr>cell_row = j + 2, cell_col = 1, cell_val = Number (listing_prices df ! j)\<rparr>)
         \<and> (\<forall>j < n. d2 ! j = \<lparr>cell_row = j + 2, cell_col = 2, cell_val = Whole (trait_balances df ! j)\<rparr>)
         \<and> (\<forall>j < n. d3 ! j = \<lparr>cell_row = j + 2, cell_col = 3, cell_val = url_value (listing_urls df ! j)\<rparr>)"
proof -
  from assign_ranges [OF assms(1,2,4,5), of sh] obtain d1 d2 d3 where
    a: "assign_cells 0 n df (range_cells sh 1 n, range_cells sh 2 n, range_cells sh 3 n)
          = Inr (d1, d2, d3)" and
    d: "length d1 = n \<and> length d2 = n \<and> length d3 = n
         \<and> (\<forall>j < n. d1 ! j = \<lparr>cell_row = j + 2, cell_col = 1, cell_val = Number (listing_prices df ! j)\<rparr>)
         \<and> (\<forall>j < n. d2 ! j = \<lparr>cell_row = j + 2, cell_col = 2, cell_val = Whole (trait_balances df ! j)\<rparr>)
         \<and> (\<forall>j < n. d3 ! j = \<lparr>cell_row = j + 2, cell_col = 3, cell_val = url_value (listing_urls df ! j)\<rparr>)"
    by blast
  from assms(3) have "\<not> store_fails w OpenSheet" "\<not> store_fails w GetWorksheet"
    "\<not> store_fails w (GetRange 1)" "\<not> store_fails w (GetRange 2)" "\<not> store_fails w (GetRange 3)"
    "\<not> store_fails w (UpdateCells 1)" "\<not> store_fails w (UpdateCells 2)"
    "\<not> store_fails w (UpdateCells 3)"
    by (simp_all add: publish_unhindered_def publish_calls_def)
  with a assms(4,5) have "update_spreadsheet cfg w sh df =
             ([Info (Updating_Spreadsheet (spread_sheet cfg)),
               Store OpenSheet, Store GetWorksheet,
               Store (GetRange 1), Store (GetRange 2), Store (GetRange 3),
               Store (UpdateCells 1), Store (UpdateCells 2), Store (UpdateCells 3),
               Info (Updated_SpreadSheet (spread_sheet cfg) (work_sheet cfg))],
              [update_cells sh d1,
               update_cells (update_cells sh d1) d2,
               update_cells (update_cells (update_cells sh d1) d2) d3],
              None)"
    by (simp add: update_spreadsheet_def Let_def length_range_cells)
  with d show ?thesis by blast
qed

lemma update_cells_written:
  assumes "length d = n"
    and "\<forall>j < n. d ! j = \<lparr>cell_row = j + 2, cell_col = c, cell_val = f j\<rparr>"
  shows "update_cells sh d (r, c') =
           (if c' = c \<and> 2 \<le> r \<and> r \<le> n + 1 then f (r - 2) else sh (r, c'))"
proof -
  from assms have "\<forall>j < length d. cell_row (d ! j) = j + 2 \<and> cell_col (d ! j) = c"
    by simp
  from update_cells_column [OF this, of sh r c'] assms show ?thesis
    by auto
qed

subsection \<open>A publish that fails\<close>

lemma distinct_calls_until_failure: "distinct (calls_until_failure w)"
  unfolding calls_until_failure_def
  by (rule distinct_take) (simp add: publish_calls_def)

lemma collect_lengths:
  assumes "get_nft_alerts_collect cfg w = (ev, Inr (b, cs))"
  shows "length (trait_balances cs) = length (listing_prices cs)
       \<and> length (listing_urls cs) = length (listing_prices cs)
       \<and> length (listing_prices cs) = length (articles w)
       \<and> store_calls ev = []"
proof -
  from assms obtain ev' where
    its: "get_nft_alerts_items cfg w b (articles w) no_columns = (ev', Inr cs)" and
    ev: "ev = [Info Getting_trait_balance, Sleep 5, Info Waiting_for_items, Sleep 3] @ ev'"
    by (auto simp: get_nft_alerts_collect_def
        split: if_splits option.splits prod.splits sum.splits)
  from items_columns [OF its] items_store_calls [OF its] ev show ?thesis
    by (auto simp: no_columns_def)
qed

subsection \<open>What a pass evaluates and hands on\<close>








lemma pass_publish:
  assumes "get_nft_alerts_collect cfg w = (ev, Inr (b, cs))"
  shows "get_nft_alerts_pass cfg sh w =
           (case update_spreadsheet cfg w sh cs of
              (ev', shs, Some e) \<Rightarrow> \<lparr>events = ev @ ev', sheets = shs, ending = Raised e\<rparr>
            | (ev', shs, None) \<Rightarrow>
                \<lparr>events = ev @ ev' @ [Info (Stats_updated (spread_sheet cfg))],
                 sheets = shs, ending = Published\<rparr>)"
proof -
  from collect_lengths [OF assms] have "DataFrame cs = Inr cs"
    by (simp add: DataFrame_def)
  with assms show ?thesis
    by (simp add: get_nft_alerts_pass_def)
qed

lemma published_sheet:
  assumes "length (trait_balances df) = length (listing_prices df)"
    and "length (listing_urls df) = length (listing_prices df)"
    and "publish_unhindered w"
    and "listing_prices df \<noteq> []"
  shows "\<exists>ev shs. update_spreadsheet cfg w sh df = (ev, shs, None)
           \<and> store_calls ev = publish_calls
           \<and> (\<forall>k < length (listing_prices df).
                 last (sh # shs) (k + 2, 1) = Number (listing_prices df ! k)
               \<and> last (sh # shs) (k + 2, 2) = Whole (trait_balances df ! k)
               \<and> last (sh # shs) (k + 2, 3) = url_value (listing_urls df ! k))"
proof -
  let ?n = "length (listing_prices df)"
  from assms(4) have "1 \<le> ?n"
    by (cases "listing_prices df") simp_all
  from update_spreadsheet_ok [OF assms(1-3) refl this, of cfg sh] obtain d1 d2 d3 where
    u: "update_spreadsheet cfg w sh df =
             ([Info (Updating_Spreadsheet (spread_sheet cfg)),
               Store OpenSheet, Store GetWorksheet,
               Store (GetRange 1), Store (GetRange 2), Store (GetRange 3),
               Store (UpdateCells 1), Store (UpdateCells 2), Store (UpdateCells 3),
               Info (Updated_SpreadSheet (spread_sheet cfg) (work_sheet cfg))],
              [update_cells sh d1,
               update_cells (update_cells sh d1) d2,
               update_cells (update_cells (update_cells sh d1) d2) d3],
              None)" and
    l: "length d1 = ?n" "length d2 = ?n" "length d3 = ?n" and
    d1: "\<forall>j < ?n. d1 ! j = \<lparr>cell_row = j + 2, cell_col = 1, cell_val = Number (listing_prices df ! j)\<rparr>" and
    d2: "\<forall>j < ?n. d2 ! j = \<lparr>cell_row = j + 2, cell_col = 2, cell_val = Whole (trait_balances df ! j)\<rparr>" and
    d3: "\<forall>j < ?n. d3 ! j = \<lparr>cell_row = j + 2, cell_col = 3, cell_val = url_value (listing_urls df ! j)\<rparr>"
    by blast
  let ?s1 = "update_cells sh d1"
  let ?s2 = "update_cells ?s1 d2"
  let ?s3 = "update_cells ?s2 d3"
  have cells: "?s3 (k + 2, 1) = Number (listing_prices df ! k)
             \<and> ?s3 (k + 2, 2) = Whole (trait_balances df ! k)
             \<and> ?s3 (k + 2, 3) = url_value (listing_urls df ! k)" if "k < ?n" for k
    using that
    by (simp add: update_cells_written [OF l(1) d1] update_cells_written [OF l(2) d2]
        update_cells_written [OF l(3) d3])
  from u cells show ?thesis
    by (simp add: publish_calls_def)
qed

lemma item_delivered:
  assumes "get_listing cfg it = Inr (p, u)" and "get_ratio b p = Inr r" and "ratio cfg \<le> r"
    and "m = \<lparr>Listing_Price = p, Account_Value = b, Ratio = r, Link = u\<rparr>"
    and "telegram w m = Response code (Some j)"
  shows "get_nft_alerts_item cfg w b it =
           ([Info (Set_Ratio (ratio cfg)), Info (Condition_matched m True),
             Info (Sending_Telegram_message m), HttpGet m, Info Telegram_message_sent],
            Inr (p, u))"
  using assms by (simp add: get_nft_alerts_item_def send_telegram_msg_def Let_def)

lemma pass_published:
  assumes "get_nft_alerts_collect cfg w = (ev, Inr (b, cs))"
    and "publish_unhindered w" and "articles w \<noteq> []"
  shows "get_nft_alerts_pass cfg sh w =
           \<lparr>events = ev @ fst (update_spreadsheet cfg w sh cs) @ [Info (Stats_updated (spread_sheet cfg))],
            sheets = fst (snd (update_spreadsheet cfg w sh cs)), ending = Published\<rparr>
       \<and> store_calls (events (get_nft_alerts_pass cfg sh w)) = publish_calls
       \<and> sheets (get_nft_alerts_pass cfg sh w) \<noteq> []"
proof -
  from collect_lengths [OF assms(1)] assms(3) have
    l: "length (trait_balances cs) = length (listing_prices cs)"
       "length (listing_urls cs) = length (listing_prices cs)" "listing_prices cs \<noteq> []" and
    quiet: "store_calls ev = []"
    by auto
  from l(3) have n: "1 \<le> length (listing_prices cs)"
    by (cases "listing_prices cs") simp_all
  from update_spreadsheet_ok [OF l(1,2) assms(2) refl n, of cfg sh] obtain e2 shs where
    u: "update_spreadsheet cfg w sh cs = (e2, shs, None)" and
    calls: "store_calls e2 = publish_calls" and ne: "shs \<noteq> []"
    by (auto simp: publish_calls_def)
  from pass_publish [OF assms(1), of sh] u have
    "get_nft_alerts_pass cfg sh w =
       \<lparr>events = ev @ e2 @ [Info (Stats_updated (spread_sheet cfg))], sheets = shs, ending = Published\<rparr>"
    by simp
  with u calls ne quiet show ?thesis
    by (simp add: store_calls_append)
qed

subsection \<open>Evaluation on concrete inputs\<close>

lemmas text_defs = py_float_def py_int_def strip_def is_space_def is_digit_def digits_val_def
  pow10_def remove_commas_def
lemmas ratio_defs = get_ratio_def py_round2_def round_half_even_def Let_def
lemmas sample_defs = sample_settings_def listed_def market_def blank_sheet_def old_sheet_def
lemmas pass_defs = get_nft_alerts_pass_def get_nft_alerts_collect_def get_nft_alerts_item_def
  get_listing_def send_telegram_msg_def no_columns_def DataFrame_def continues_def

section \<open>The claims\<close>

subsection \<open>The alert decision\<close>



subsection \<open>The three columns\<close>

text \<open>
  \<^bold>\<open>C10.\<close> In every pass of every run that reaches the publish step, the three lists have
  the length of the article list, hold at each position the price and link extracted from
  the article at that position, and every entry of the balance list is the balance read at
  the start of the pass; \<^verbatim>\<open>pd.DataFrame\<close> accepts them, and \<^verbatim>\<open>update_spreadsheet\<close> is called
  on exactly these lists. When no call to the sheet fails and there is at least one
  article, the pass ends published and row \<open>k + 2\<close> of the sheet then holds the price of
  article \<open>k\<close>, the balance and the link of article \<open>k\<close>.
\<close>

theorem snapshot_columns_aligned:
  assumes "i < length (get_nft_alerts_loop cfg sh ws)"
    and "get_nft_alerts_collect cfg (ws ! i) = (ev, Inr (b, cs))"
  shows "length (listing_prices cs) = length (articles (ws ! i))
       \<and> length (trait_balances cs) = length (articles (ws ! i))
       \<and> length (listing_urls cs) = length (articles (ws ! i))
       \<and> (\<exists>t. balance_text (ws ! i) = Some t \<and> py_int t = Some b)
       \<and> trait_balances cs = replicate (length (articles (ws ! i))) b
       \<and> map (get_listing cfg) (articles (ws ! i)) = map Inr (zip (listing_prices cs) (listing_urls cs))
       \<and> DataFrame cs = Inr cs
       \<and> (\<exists>sh'. get_nft_alerts_loop cfg sh ws ! i =
             (case update_spreadsheet cfg (ws ! i) sh' cs of
                (ev', shs, Some e) \<Rightarrow> \<lparr>events = ev @ ev', sheets = shs, ending = Raised e\<rparr>
              | (ev', shs, None) \<Rightarrow>
                  \<lparr>events = ev @ ev' @ [Info (Stats_updated (spread_sheet cfg))],
                   sheets = shs, ending = Published\<rparr>))
       \<and> (publish_unhindered (ws ! i) \<and> articles (ws ! i) \<noteq> [] \<longrightarrow>
            ending (get_nft_alerts_loop cfg sh ws ! i) = Published
          \<and> store_calls (events (get_nft_alerts_loop cfg sh ws ! i)) = publish_calls
          \<and> sheets (get_nft_alerts_loop cfg sh ws ! i) \<noteq> []
          \<and> (\<forall>k < length (articles (ws ! i)).
                last (sheets (get_nft_alerts_loop cfg sh ws ! i)) (k + 2, 1) = Number (listing_prices cs ! k)
              \<and> last (sheets (get_nft_alerts_loop cfg sh ws ! i)) (k + 2, 2) = Whole b
              \<and> last (sheets (get_nft_alerts_loop cfg sh ws ! i)) (k + 2, 3) = url_value (listing_urls cs ! k)))"
proof -
  let ?w = "ws ! i"
  let ?n = "length (articles ?w)"
  from assms(2) obtain t ev' where
    t: "balance_text ?w = Some t" "py_int t = Some b" and
    its: "get_nft_alerts_items cfg ?w b (articles ?w) no_columns = (ev', Inr cs)"
    by (auto simp: get_nft_alerts_collect_def
        split: if_splits option.splits prod.splits sum.splits)
  from items_columns [OF its] obtain ps us where
    cols: "length ps = ?n" "length us = ?n"
    "listing_prices cs = ps" "trait_balances cs = replicate ?n b"
    "listing_urls cs = us" "map (get_listing cfg) (articles ?w) = map Inr (zip ps us)"
    by (auto simp: no_columns_def)
  then have df: "DataFrame cs = Inr cs"
    by (simp add: DataFrame_def)
  from loop_nth [OF assms(1)] obtain sh' where
    p: "get_nft_alerts_loop cfg sh ws ! i = get_nft_alerts_pass cfg sh' ?w"
    by blast
  note eq = pass_publish [OF assms(2), of sh']
  have sink: "\<exists>sh'. get_nft_alerts_loop cfg sh ws ! i =
             (case update_spreadsheet cfg ?w sh' cs of
                (ev', shs, Some e) \<Rightarrow> \<lparr>events = ev @ ev', sheets = shs, ending = Raised e\<rparr>
              | (ev', shs, None) \<Rightarrow>
                  \<lparr>events = ev @ ev' @ [Info (Stats_updated (spread_sheet cfg))],
                   sheets = shs, ending = Published\<rparr>)"
    using p eq by auto
  have shown: "ending (get_nft_alerts_loop cfg sh ws ! i) = Published
          \<and> store_calls (events (get_nft_alerts_loop cfg sh ws ! i)) = publish_calls
          \<and> sheets (get_nft_alerts_loop cfg sh ws ! i) \<noteq> []
          \<and> (\<forall>k < ?n.
                last (sheets (get_nft_alerts_loop cfg sh ws ! i)) (k + 2, 1) = Number (listing_prices cs ! k)
              \<and> last (sheets (get_nft_alerts_loop cfg sh ws ! i)) (k + 2, 2) = Whole b
              \<and> last (sheets (get_nft_alerts_loop cfg sh ws ! i)) (k + 2, 3) = url_value (listing_urls cs ! k))"
    if un: "publish_unhindered ?w" and ne: "articles ?w \<noteq> []"
  proof -
    from cols ne have l: "length (trait_balances cs) = length (listing_prices cs)"
      "length (listing_urls cs) = length (listing_prices cs)" "listing_prices cs \<noteq> []"
      by auto
    from published_sheet [OF l(1,2) un l(3), of cfg sh'] obtain e2 shs where
      u: "update_spreadsheet cfg ?w sh' cs = (e2, shs, None)" and
      calls: "store_calls e2 = publish_calls" and
      cells: "\<forall>k < length (listing_prices cs).
                 last (sh' # shs) (k + 2, 1) = Number (listing_prices cs ! k)
               \<and> last (sh' # shs) (k + 2, 2) = Whole (trait_balances cs ! k)
               \<and> last (sh' # shs) (k + 2, 3) = url_value (listing_urls cs ! k)"
      by blast
    from u l(3) un have ne': "shs \<noteq> []"
      using update_spreadsheet_ok [OF l(1,2) un refl, of cfg sh'] by (cases "listing_prices cs") auto
    from collect_lengths [OF assms(2)] have quiet: "store_calls ev = []"
      by simp
    from p eq u have pass: "get_nft_alerts_loop cfg sh ws ! i =
        \<lparr>events = ev @ e2 @ [Info (Stats_updated (spread_sheet cfg))], sheets = shs, ending = Published\<rparr>"
      by simp
    with calls quiet ne' cells cols show ?thesis
      by (simp add: store_calls_append)
  qed
  from cols t df sink shown show ?thesis
    by simp
qed

theorem snapshot_columns_aligned_witness:
  "1 < length (get_nft_alerts_loop sample_settings old_sheet
                 [market [listed ''8000'' ''b''],
                  market [listed ''4000'' ''a'', listed ''8,000'' ''b'']])
   \<and> snd (get_nft_alerts_collect sample_settings (market [listed ''4000'' ''a'', listed ''8,000'' ''b'']))
       = Inr (100000, \<lparr>listing_prices = [4000, 8000], trait_balances = [100000, 100000],
                       listing_urls = [Some ''a'', Some ''b'']\<rparr>)
   \<and> publish_unhindered (market [listed ''4000'' ''a'', listed ''8,000'' ''b''])
   \<and> ending (get_nft_alerts_loop sample_settings old_sheet
                 [market [listed ''8000'' ''b''],
                  market [listed ''4000'' ''a'', listed ''8,000'' ''b'']] ! 1) = Published
   \<and> last (sheets (get_nft_alerts_loop sample_settings old_sheet
                 [market [listed ''8000'' ''b''],
                  market [listed ''4000'' ''a'', listed ''8,000'' ''b'']] ! 1)) (2, 1) = Number 4000
   \<and> last (sheets (get_nft_alerts_loop sample_settings old_sheet
                 [market [listed ''8000'' ''b''],
                  market [listed ''4000'' ''a'', listed ''8,000'' ''b'']] ! 1)) (3, 1) = Number 8000
   \<and> last (sheets (get_nft_alerts_loop sample_settings old_sheet
                 [market [listed ''8000'' ''b''],
                  market [listed ''4000'' ''a'', listed ''8,000'' ''b'']] ! 1)) (3, 2) = Whole 100000
   \<and> last (sheets (get_nft_alerts_loop sample_settings old_sheet
                 [market [listed ''8000'' ''b''],
                  market [listed ''4000'' ''a'', listed ''8,000'' ''b'']] ! 1)) (3, 3) = Text ''b''"
proof -
  let ?v = "market [listed ''8000'' ''b'']"
  let ?w = "market [listed ''4000'' ''a'', listed ''8,000'' ''b'']"
  let ?cs = "\<lparr>listing_prices = [4000, 8000], trait_balances = [100000, 100000],
              listing_urls = [Some ''a'', Some ''b'']\<rparr>"
  define L where "L = get_nft_alerts_loop sample_settings old_sheet [?v, ?w]"
  have e: "ending (get_nft_alerts_pass sample_settings old_sheet ?v) = Published"
    by (simp add: text_defs ratio_defs sample_defs pass_defs update_spreadsheet_def
        range_cells_def)
  then have i: "1 < length (get_nft_alerts_loop sample_settings old_sheet [?v, ?w])"
    by (simp add: Let_def continues_def)
  have run: "get_nft_alerts_collect sample_settings ([?v, ?w] ! 1) =
     ([Info Getting_trait_balance, Sleep 5, Info Waiting_for_items, Sleep 3,
       Info (Set_Ratio 20),
       Info (Condition_matched \<lparr>Listing_Price = 4000, Account_Value = 100000, Ratio = 25, Link = Some ''a''\<rparr> True),
       Info (Sending_Telegram_message \<lparr>Listing_Price = 4000, Account_Value = 100000, Ratio = 25, Link = Some ''a''\<rparr>),
       HttpGet \<lparr>Listing_Price = 4000, Account_Value = 100000, Ratio = 25, Link = Some ''a''\<rparr>,
       Info Telegram_message_sent,
       Info (Set_Ratio 20),
       Info (Condition_matched \<lparr>Listing_Price = 8000, Account_Value = 100000, Ratio = 25 / 2, Link = Some ''b''\<rparr> False)],
      Inr (100000, ?cs))"
    by (simp add: text_defs ratio_defs sample_defs pass_defs)
  have w: "[?v, ?w] ! 1 = ?w"
    by simp
  have un: "publish_unhindered ?w" and ne: "articles ?w \<noteq> []"
    and n: "length (articles ?w) = 2"
    by (simp_all add: publish_unhindered_def publish_calls_def market_def)
  from snapshot_columns_aligned [OF i run] un ne have
    p: "ending (L ! 1) = Published" and
    cells: "\<forall>k < length (articles ?w).
                last (sheets (L ! 1)) (k + 2, 1) = Number (listing_prices ?cs ! k)
              \<and> last (sheets (L ! 1)) (k + 2, 2) = Whole 100000
              \<and> last (sheets (L ! 1)) (k + 2, 3) = url_value (listing_urls ?cs ! k)"
    unfolding w L_def by blast+
  from cells [rule_format, of 0] cells [rule_format, of 1] n have
    f: "last (sheets (L ! 1)) (2, 1) = Number 4000" "last (sheets (L ! 1)) (3, 1) = Number 8000"
    "last (sheets (L ! 1)) (3, 2) = Whole 100000" "last (sheets (L ! 1)) (3, 3) = Text ''b''"
    by (simp_all add: url_value_def eval_nat_numeral)
  from run w have c: "snd (get_nft_alerts_collect sample_settings ?w) = Inr (100000, ?cs)"
    by simp
  show ?thesis
    using i c un p f unfolding L_def by (intro conjI)
qed

subsection \<open>An empty market\<close>

text \<open>
  \<^bold>\<open>C8.\<close> When the wait for the listing items times out, the pass logs that no item was
  found, pauses for three seconds and goes back to the head of the loop, where the balance
  is read again before the next wait for items. It makes no call to the sheet and sends no
  alert. Any number of such passes in a row leaves the loop running, and the passes that
  follow run as they would have from the start.
\<close>

theorem empty_market_retried:
  assumes "list_all items_timeout ws"
  shows "get_nft_alerts_loop cfg sh (ws @ rest)
           = replicate (length ws) empty_market_pass @ get_nft_alerts_loop cfg sh rest
       \<and> still_running cfg sh ws
       \<and> store_calls (events empty_market_pass) = []
       \<and> alerts (events empty_market_pass) = []
       \<and> last (events empty_market_pass) = Sleep 3"
proof -
  have loop: "get_nft_alerts_loop cfg sh (ws @ rest)
           = replicate (length ws) empty_market_pass @ get_nft_alerts_loop cfg sh rest" for rest
    using assms
  proof (induction ws)
    case Nil
    show ?case by simp
  next
    case (Cons w ws)
    then have "get_nft_alerts_pass cfg sh w = empty_market_pass"
      by (simp add: items_timeout_pass)
    with Cons show ?case
      by (simp add: Let_def continues_def empty_market_pass_def)
  qed
  from loop [of "[]"] have "still_running cfg sh ws"
    by (simp add: still_running_def Let_def list_all_iff continues_def empty_market_pass_def)
  with loop show ?thesis
    by (simp add: empty_market_pass_def)
qed

theorem empty_market_retried_witness:
  "list_all items_timeout
     [(market [])\<lparr>items_visible := False\<rparr>, (market [])\<lparr>items_visible := False\<rparr>,
      (market [])\<lparr>items_visible := False\<rparr>]
   \<and> map ending (get_nft_alerts_loop sample_settings blank_sheet
        ([(market [])\<lparr>items_visible := False\<rparr>, (market [])\<lparr>items_visible := False\<rparr>,
          (market [])\<lparr>items_visible := False\<rparr>] @ [market [listed ''4000'' ''a'']]))
       = [Empty_market, Empty_market, Empty_market, Published]
   \<and> still_running sample_settings blank_sheet
        [(market [])\<lparr>items_visible := False\<rparr>, (market [])\<lparr>items_visible := False\<rparr>,
         (market [])\<lparr>items_visible := False\<rparr>]"
proof -
  have h: "list_all items_timeout
     [(market [])\<lparr>items_visible := False\<rparr>, (market [])\<lparr>items_visible := False\<rparr>,
      (market [])\<lparr>items_visible := False\<rparr>]"
    by (simp add: items_timeout_def text_defs sample_defs)
  have p: "ending (get_nft_alerts_pass sample_settings blank_sheet (market [listed ''4000'' ''a''])) = Published"
    by (simp add: text_defs ratio_defs sample_defs pass_defs update_spreadsheet_def
        range_cells_def)
  from empty_market_retried [OF h, of sample_settings blank_sheet "[market [listed ''4000'' ''a'']]"] h p
  show ?thesis
    by (simp add: Let_def continues_def empty_market_pass_def numeral_3_eq_3)
qed

subsection \<open>No memory of earlier alerts\<close>

text \<open>
  \<^bold>\<open>C9.\<close> Two passes of one run that reach the publish step on the same balance text and the
  same articles send the same alerts, whatever happened in between and whatever the sheet
  holds: the alerts of a pass are those due for its own page, so an article that stays at or
  above the threshold is alerted again in every pass.
\<close>

theorem alerts_have_no_memory:
  assumes "i < length (get_nft_alerts_loop cfg sh ws)" and "j < length (get_nft_alerts_loop cfg sh ws)"
    and "reaches_publish cfg (ws ! i)" and "reaches_publish cfg (ws ! j)"
    and "balance_text (ws ! i) = balance_text (ws ! j)"
    and "articles (ws ! i) = articles (ws ! j)"
  shows "alerts (events (get_nft_alerts_loop cfg sh ws ! i))
           = alerts (events (get_nft_alerts_loop cfg sh ws ! j))
       \<and> (\<exists>t b. balance_text (ws ! i) = Some t \<and> py_int t = Some b
             \<and> alerts (events (get_nft_alerts_loop cfg sh ws ! i)) = due_alerts cfg b (articles (ws ! i)))"
proof -
  have one: "\<exists>t b. balance_text (ws ! k) = Some t \<and> py_int t = Some b
       \<and> alerts (events (get_nft_alerts_loop cfg sh ws ! k)) = due_alerts cfg b (articles (ws ! k))"
    if k: "k < length (get_nft_alerts_loop cfg sh ws)" and r: "reaches_publish cfg (ws ! k)" for k
  proof -
    from loop_nth [OF k] obtain sh' where
      p: "get_nft_alerts_loop cfg sh ws ! k = get_nft_alerts_pass cfg sh' (ws ! k)"
      by blast
    from r obtain ev b cs where c: "get_nft_alerts_collect cfg (ws ! k) = (ev, Inr (b, cs))"
      by (cases "get_nft_alerts_collect cfg (ws ! k)")
         (auto simp: reaches_publish_def split: sum.splits)
    from collect_alerts [OF c] pass_alerts [OF c, of sh'] p show ?thesis
      by auto
  qed
  from one [OF assms(1) assms(3)] one [OF assms(2) assms(4)] assms(5) assms(6)
  show ?thesis by auto
qed


theorem alerts_have_no_memory_witness:
  "0 < length (get_nft_alerts_loop sample_settings blank_sheet
                 [market [listed ''4000'' ''a'', listed ''6,000'' ''b''],
                  market [listed ''4000'' ''a'', listed ''6,000'' ''b'']])
   \<and> 1 < length (get_nft_alerts_loop sample_settings blank_sheet
                 [market [listed ''4000'' ''a'', listed ''6,000'' ''b''],
                  market [listed ''4000'' ''a'', listed ''6,000'' ''b'']])
   \<and> reaches_publish sample_settings (market [listed ''4000'' ''a'', listed ''6,000'' ''b''])
   \<and> alerts (events (get_nft_alerts_loop sample_settings blank_sheet
                 [market [listed ''4000'' ''a'', listed ''6,000'' ''b''],
                  market [listed ''4000'' ''a'', listed ''6,000'' ''b'']] ! 0))
       = alerts (events (get_nft_alerts_loop sample_settings blank_sheet
                 [market [listed ''4000'' ''a'', listed ''6,000'' ''b''],
                  market [listed ''4000'' ''a'', listed ''6,000'' ''b'']] ! 1))
   \<and> alerts (events (get_nft_alerts_loop sample_settings blank_sheet
                 [market [listed ''4000'' ''a'', listed ''6,000'' ''b''],
                  market [listed ''4000'' ''a'', listed ''6,000'' ''b'']] ! 0))
       = [\<lparr>Listing_Price = 4000, Account_Value = 100000, Ratio = 25, Link = Some ''a''\<rparr>]"
proof -
  let ?w = "market [listed ''4000'' ''a'', listed ''6,000'' ''b'']"
  let ?L = "get_nft_alerts_loop sample_settings blank_sheet [?w, ?w]"
  have e: "ending (get_nft_alerts_pass sample_settings s ?w) = Published" for s
    by (simp add: text_defs ratio_defs sample_defs pass_defs update_spreadsheet_def
        range_cells_def)
  have len: "length ?L = 2"
    by (simp add: Let_def e continues_def)
  have r: "reaches_publish sample_settings ?w"
    by (simp add: reaches_publish_def text_defs ratio_defs sample_defs pass_defs)
  have t: "balance_text ?w = Some ''100000''" "articles ?w = [listed ''4000'' ''a'', listed ''6,000'' ''b'']"
    by (simp_all add: market_def)
  have b: "py_int ''100000'' = Some 100000"
    by (simp add: text_defs)
  have d: "due_alerts sample_settings 100000 [listed ''4000'' ''a'', listed ''6,000'' ''b'']
             = [\<lparr>Listing_Price = 4000, Account_Value = 100000, Ratio = 25, Link = Some ''a''\<rparr>]"
    by (simp add: get_listing_def text_defs ratio_defs sample_defs)
  have i: "0 < length ?L" "1 < length ?L"
    using len by simp_all
  from alerts_have_no_memory [of 0 sample_settings blank_sheet "[?w, ?w]" 1, OF i] r t b d i
  show ?thesis
    by auto
qed

subsection \<open>An article that cannot be read\<close>

text \<open>
  \<^bold>\<open>C1\<close>, as stated: a failure to extract one article's price or link drops only that
  article, and the rest of the pass goes on. It does not hold. Of three articles, the
  second has the price text \<^verbatim>\<open>n/a\<close>: the pass ends there with \<^verbatim>\<open>ValueError\<close>, the third
  article (whose ratio would have reached the threshold) is never evaluated, no call to the
  sheet is made, and the second world is never visited.
\<close>

theorem malformed_item_counterexample:
  "get_nft_alerts_loop sample_settings blank_sheet
     [market [listed ''4000'' ''a'', listed ''n/a'' ''b'', listed ''3000'' ''c''],
      market [listed ''4000'' ''a'', listed ''n/a'' ''b'', listed ''3000'' ''c'']]
   = [\<lparr>events =
         [Info Getting_trait_balance, Sleep 5, Info Waiting_for_items, Sleep 3,
          Info (Set_Ratio 20),
          Info (Condition_matched
                 \<lparr>Listing_Price = 4000, Account_Value = 100000, Ratio = 25, Link = Some ''a''\<rparr> True),
          Info (Sending_Telegram_message
                 \<lparr>Listing_Price = 4000, Account_Value = 100000, Ratio = 25, Link = Some ''a''\<rparr>),
          HttpGet \<lparr>Listing_Price = 4000, Account_Value = 100000, Ratio = 25, Link = Some ''a''\<rparr>,
          Info Telegram_message_sent],
       sheets = [], ending = Raised ValueError\<rparr>]"
  by (simp add: text_defs ratio_defs sample_defs pass_defs)

text \<open>
  \<^bold>\<open>C1\<close>, amended: if the price or the link of an article cannot be extracted, nothing
  catches the exception. The pass ends at that article with the error raised by the
  extraction; the articles before it have been evaluated and alerted, those after it are
  not evaluated; no call to the sheet is made; and the run ends with this pass.
\<close>

theorem extraction_failure_ends_run:
  assumes "balance_visible w" "balance_text w = Some t" "py_int t = Some b" "items_visible w"
    and "articles w = pre @ it # post"
    and "get_nft_alerts_items cfg w b pre no_columns = (ev, Inr cs)"
    and "get_listing cfg it = Inl e"
  shows "get_nft_alerts_pass cfg sh w =
           \<lparr>events = [Info Getting_trait_balance, Sleep 5, Info Waiting_for_items, Sleep 3] @ ev,
            sheets = [], ending = Raised e\<rparr>
       \<and> alerts (events (get_nft_alerts_pass cfg sh w)) = due_alerts cfg b pre
       \<and> store_calls (events (get_nft_alerts_pass cfg sh w)) = []
       \<and> get_nft_alerts_loop cfg sh (w # ws) = [get_nft_alerts_pass cfg sh w]"
proof -
  from assms(7) have "get_nft_alerts_item cfg w b it = ([], Inl e)"
    by (simp add: get_nft_alerts_item_def)
  from pass_raised_in_items [OF assms(1-6) this, of sh]
  have p: "get_nft_alerts_pass cfg sh w =
           \<lparr>events = [Info Getting_trait_balance, Sleep 5, Info Waiting_for_items, Sleep 3] @ ev,
            sheets = [], ending = Raised e\<rparr>"
    by simp
  then have "ending (get_nft_alerts_pass cfg sh w) = Raised e"
    by simp
  from raised_pass_ends_loop [OF this]
  have l: "get_nft_alerts_loop cfg sh (w # ws) = [get_nft_alerts_pass cfg sh w]" .
  from p items_alerts [OF assms(6)] items_store_calls [OF assms(6)] l show ?thesis
    by simp
qed

theorem extraction_failure_ends_run_witness:
  "get_nft_alerts_items sample_settings
      (market [listed ''4000'' ''a'', listed ''n/a'' ''b'', listed ''3000'' ''c'']) 100000
      [listed ''4000'' ''a''] no_columns
     = ([Info (Set_Ratio 20),
         Info (Condition_matched
                \<lparr>Listing_Price = 4000, Account_Value = 100000, Ratio = 25, Link = Some ''a''\<rparr> True),
         Info (Sending_Telegram_message
                \<lparr>Listing_Price = 4000, Account_Value = 100000, Ratio = 25, Link = Some ''a''\<rparr>),
         HttpGet \<lparr>Listing_Price = 4000, Account_Value = 100000, Ratio = 25, Link = Some ''a''\<rparr>,
         Info Telegram_message_sent],
        Inr \<lparr>listing_prices = [4000], trait_balances = [100000], listing_urls = [Some ''a'']\<rparr>)
   \<and> get_listing sample_settings (listed ''n/a'' ''b'') = Inl ValueError
   \<and> ending (get_nft_alerts_pass sample_settings blank_sheet
        (market [listed ''4000'' ''a'', listed ''n/a'' ''b'', listed ''3000'' ''c''])) = Raised ValueError
   \<and> store_calls (events (get_nft_alerts_pass sample_settings blank_sheet
        (market [listed ''4000'' ''a'', listed ''n/a'' ''b'', listed ''3000'' ''c'']))) = []
   \<and> get_nft_alerts_loop sample_settings blank_sheet
        (market [listed ''4000'' ''a'', listed ''n/a'' ''b'', listed ''3000'' ''c'']
         # [market [listed ''3000'' ''c'']])
       = [get_nft_alerts_pass sample_settings blank_sheet
           (market [listed ''4000'' ''a'', listed ''n/a'' ''b'', listed ''3000'' ''c''])]"
proof -
  let ?w = "market [listed ''4000'' ''a'', listed ''n/a'' ''b'', listed ''3000'' ''c'']"
  have h: "balance_visible ?w" "balance_text ?w = Some ''100000''" "py_int ''100000'' = Some 100000"
    "items_visible ?w"
    "articles ?w = [listed ''4000'' ''a''] @ listed ''n/a'' ''b'' # [listed ''3000'' ''c'']"
    by (simp_all add: market_def text_defs)
  have pre: "get_nft_alerts_items sample_settings ?w 100000 [listed ''4000'' ''a''] no_columns
     = ([Info (Set_Ratio 20),
         Info (Condition_matched
                \<lparr>Listing_Price = 4000, Account_Value = 100000, Ratio = 25, Link = Some ''a''\<rparr> True),
         Info (Sending_Telegram_message
                \<lparr>Listing_Price = 4000, Account_Value = 100000, Ratio = 25, Link = Some ''a''\<rparr>),
         HttpGet \<lparr>Listing_Price = 4000, Account_Value = 100000, Ratio = 25, Link = Some ''a''\<rparr>,
         Info Telegram_message_sent],
        Inr \<lparr>listing_prices = [4000], trait_balances = [100000], listing_urls = [Some ''a'']\<rparr>)"
    by (simp add: text_defs ratio_defs sample_defs pass_defs)
  have bad: "get_listing sample_settings (listed ''n/a'' ''b'') = Inl ValueError"
    by (simp add: get_listing_def text_defs sample_defs)
  note t = extraction_failure_ends_run [OF h pre bad, of blank_sheet "[market [listed ''3000'' ''c'']]"]
  from t have "ending (get_nft_alerts_pass sample_settings blank_sheet ?w) = Raised ValueError"
    by simp
  with t pre bad show ?thesis
    by blast
qed

subsection \<open>A price of zero\<close>

text \<open>
  \<^bold>\<open>C6\<close>, as stated: an article priced at zero is dropped before the ratio is computed, so
  no division by zero occurs. It does not hold: with the price text \<^verbatim>\<open>0\<close> the division of
  line 350 raises \<^verbatim>\<open>ZeroDivisionError\<close>, which ends the pass and the run.
\<close>

theorem zero_price_counterexample:
  "get_nft_alerts_loop sample_settings blank_sheet
     [market [listed ''0'' ''z'', listed ''4000'' ''a''],
      market [listed ''4000'' ''a'']]
   = [\<lparr>events = [Info Getting_trait_balance, Sleep 5, Info Waiting_for_items, Sleep 3],
       sheets = [], ending = Raised ZeroDivisionError\<rparr>]"
  by (simp add: text_defs ratio_defs sample_defs pass_defs)

text \<open>
  \<^bold>\<open>C6\<close>, amended: a converted price of zero does reach the ratio computation. The division
  raises \<^verbatim>\<open>ZeroDivisionError\<close>, which nothing catches: the pass ends at that article, no
  call to the sheet is made, and the run ends with this pass.
\<close>

theorem zero_price_raises:
  assumes "balance_visible w" "balance_text w = Some t" "py_int t = Some b" "items_visible w"
    and "articles w = pre @ it # post"
    and "get_nft_alerts_items cfg w b pre no_columns = (ev, Inr cs)"
    and "get_listing cfg it = Inr (0, u)"
  shows "get_ratio b 0 = Inl ZeroDivisionError
       \<and> get_nft_alerts_pass cfg sh w =
           \<lparr>events = [Info Getting_trait_balance, Sleep 5, Info Waiting_for_items, Sleep 3] @ ev,
            sheets = [], ending = Raised ZeroDivisionError\<rparr>
       \<and> store_calls (events (get_nft_alerts_pass cfg sh w)) = []
       \<and> get_nft_alerts_loop cfg sh (w # ws) = [get_nft_alerts_pass cfg sh w]"
proof -
  have z: "get_ratio b 0 = Inl ZeroDivisionError"
    by (simp add: get_ratio_def)
  with assms(7) have "get_nft_alerts_item cfg w b it = ([], Inl ZeroDivisionError)"
    by (simp add: get_nft_alerts_item_def)
  from pass_raised_in_items [OF assms(1-6) this, of sh]
  have p: "get_nft_alerts_pass cfg sh w =
           \<lparr>events = [Info Getting_trait_balance, Sleep 5, Info Waiting_for_items, Sleep 3] @ ev,
            sheets = [], ending = Raised ZeroDivisionError\<rparr>"
    by simp
  then have "ending (get_nft_alerts_pass cfg sh w) = Raised ZeroDivisionError"
    by simp
  from raised_pass_ends_loop [OF this]
  have l: "get_nft_alerts_loop cfg sh (w # ws) = [get_nft_alerts_pass cfg sh w]" .
  from z p items_store_calls [OF assms(6)] l show ?thesis
    by simp
qed

theorem zero_price_raises_witness:
  "get_listing sample_settings (listed ''0.00'' ''z'') = Inr (0, Some ''z'')
   \<and> ending (get_nft_alerts_pass sample_settings blank_sheet
        (market [listed ''0.00'' ''z'', listed ''4000'' ''a''])) = Raised ZeroDivisionError
   \<and> store_calls (events (get_nft_alerts_pass sample_settings blank_sheet
        (market [listed ''0.00'' ''z'', listed ''4000'' ''a'']))) = []
   \<and> get_nft_alerts_loop sample_settings blank_sheet
        (market [listed ''0.00'' ''z'', listed ''4000'' ''a''] # [market [listed ''4000'' ''a'']])
       = [get_nft_alerts_pass sample_settings blank_sheet
            (market [listed ''0.00'' ''z'', listed ''4000'' ''a''])]"
proof -
  let ?w = "market [listed ''0.00'' ''z'', listed ''4000'' ''a'']"
  have h: "balance_visible ?w" "balance_text ?w = Some ''100000''" "py_int ''100000'' = Some 100000"
    "items_visible ?w"
    "articles ?w = [] @ listed ''0.00'' ''z'' # [listed ''4000'' ''a'']"
    "get_nft_alerts_items sample_settings ?w 100000 [] no_columns = ([], Inr no_columns)"
    by (simp_all add: market_def text_defs)
  have z: "get_listing sample_settings (listed ''0.00'' ''z'') = Inr (0, Some ''z'')"
    by (simp add: get_listing_def text_defs sample_defs)
  note t = zero_price_raises [OF h z, of blank_sheet "[market [listed ''4000'' ''a'']]"]
  from t have "ending (get_nft_alerts_pass sample_settings blank_sheet ?w) = Raised ZeroDivisionError"
    by simp
  with t z show ?thesis
    by blast
qed

subsection \<open>An alert that cannot be delivered\<close>

text \<open>
  \<^bold>\<open>C2\<close>, as stated: a failed dispatch (network error or non-2xx response) is logged and
  swallowed, and the pass goes on to the remaining articles and to the publish. It does
  not hold for a network error: \<^verbatim>\<open>requests.get\<close> raises, the pass ends at the first
  alerting article with \<^verbatim>\<open>ConnectionError\<close>, the second article is never evaluated, no
  call to the sheet is made, and the second world is never visited.
\<close>

theorem dispatch_failure_counterexample:
  "get_nft_alerts_loop sample_settings blank_sheet
     [(market [listed ''4000'' ''a'', listed ''3000'' ''c''])\<lparr>telegram := (\<lambda>m. NetworkError)\<rparr>,
      market [listed ''4000'' ''a'', listed ''3000'' ''c'']]
   = [\<lparr>events =
         [Info Getting_trait_balance, Sleep 5, Info Waiting_for_items, Sleep 3,
          Info (Set_Ratio 20),
          Info (Condition_matched
                 \<lparr>Listing_Price = 4000, Account_Value = 100000, Ratio = 25, Link = Some ''a''\<rparr> True),
          Info (Sending_Telegram_message
                 \<lparr>Listing_Price = 4000, Account_Value = 100000, Ratio = 25, Link = Some ''a''\<rparr>),
          HttpGet \<lparr>Listing_Price = 4000, Account_Value = 100000, Ratio = 25, Link = Some ''a''\<rparr>],
       sheets = [], ending = Raised ConnectionError\<rparr>]"
  by (simp add: text_defs ratio_defs sample_defs pass_defs)

text \<open>
  \<^bold>\<open>C2\<close>, amended: for an alerting article exactly one request is sent and it is never
  repeated. If the request gets no reply (network error), or a reply whose body is not
  JSON, the exception leaves \<^verbatim>\<open>send_telegram_msg\<close> uncaught: the pass ends at that article,
  no call to the sheet is made, and the run ends with this pass. If the reply has a JSON
  body, its status code is not looked at: whatever the code, the log says the message has
  been sent and the loop goes on with the article appended to the three lists; when the
  remaining articles are evaluated without an exception and no call to the sheet fails,
  the pass sends the alerts due for the articles before, this alert once, and the alerts
  due for the articles after, publishes the snapshot with this article in it, and the run
  goes on to the next pass.
\<close>

theorem dispatch_failure_policy:
  assumes "balance_visible w" "balance_text w = Some t" "py_int t = Some b" "items_visible w"
    and "articles w = pre @ it # post"
    and "get_nft_alerts_items cfg w b pre no_columns = (ev, Inr cs)"
    and "get_listing cfg it = Inr (p, u)" and "get_ratio b p = Inr r" and "ratio cfg \<le> r"
    and "m = \<lparr>Listing_Price = p, Account_Value = b, Ratio = r, Link = u\<rparr>"
  shows "(telegram w m = NetworkError \<longrightarrow>
            get_nft_alerts_pass cfg sh w =
              \<lparr>events = [Info Getting_trait_balance, Sleep 5, Info Waiting_for_items, Sleep 3] @ ev
                         @ [Info (Set_Ratio (ratio cfg)), Info (Condition_matched m True),
                            Info (Sending_Telegram_message m), HttpGet m],
               sheets = [], ending = Raised ConnectionError\<rparr>
          \<and> store_calls (events (get_nft_alerts_pass cfg sh w)) = []
          \<and> get_nft_alerts_loop cfg sh (w # ws) = [get_nft_alerts_pass cfg sh w])
       \<and> (\<forall>code. telegram w m = Response code None \<longrightarrow>
            get_nft_alerts_pass cfg sh w =
              \<lparr>events = [Info Getting_trait_balance, Sleep 5, Info Waiting_for_items, Sleep 3] @ ev
                         @ [Info (Set_Ratio (ratio cfg)), Info (Condition_matched m True),
                            Info (Sending_Telegram_message m), HttpGet m, Info Telegram_message_sent],
               sheets = [], ending = Raised JSONDecodeError\<rparr>
          \<and> store_calls (events (get_nft_alerts_pass cfg sh w)) = []
          \<and> get_nft_alerts_loop cfg sh (w # ws) = [get_nft_alerts_pass cfg sh w])
       \<and> (\<forall>code j. telegram w m = Response code (Some j) \<longrightarrow>
            get_nft_alerts_items cfg w b (pre @ [it]) no_columns =
              (ev @ [Info (Set_Ratio (ratio cfg)), Info (Condition_matched m True),
                     Info (Sending_Telegram_message m), HttpGet m, Info Telegram_message_sent],
               Inr \<lparr>listing_prices = listing_prices cs @ [p],
                    trait_balances = trait_balances cs @ [b],
                    listing_urls = listing_urls cs @ [u]\<rparr>)
          \<and> (\<forall>ev2 cs2.
                get_nft_alerts_items cfg w b post
                  \<lparr>listing_prices = listing_prices cs @ [p],
                   trait_balances = trait_balances cs @ [b],
                   listing_urls = listing_urls cs @ [u]\<rparr> = (ev2, Inr cs2)
                \<and> publish_unhindered w \<longrightarrow>
                  get_nft_alerts_pass cfg sh w =
                    \<lparr>events = [Info Getting_trait_balance, Sleep 5, Info Waiting_for_items, Sleep 3] @ ev
                               @ [Info (Set_Ratio (ratio cfg)), Info (Condition_matched m True),
                                  Info (Sending_Telegram_message m), HttpGet m,
                                  Info Telegram_message_sent]
                               @ ev2 @ fst (update_spreadsheet cfg w sh cs2)
                               @ [Info (Stats_updated (spread_sheet cfg))],
                     sheets = fst (snd (update_spreadsheet cfg w sh cs2)), ending = Published\<rparr>
                \<and> alerts (events (get_nft_alerts_pass cfg sh w))
                    = due_alerts cfg b pre @ m # due_alerts cfg b post
                \<and> store_calls (events (get_nft_alerts_pass cfg sh w)) = publish_calls
                \<and> (\<exists>ps us. listing_prices cs2 = listing_prices cs @ p # ps
                           \<and> listing_urls cs2 = listing_urls cs @ u # us)
                \<and> get_nft_alerts_loop cfg sh (w # ws)
                    = get_nft_alerts_pass cfg sh w
                      # get_nft_alerts_loop cfg (last (sheets (get_nft_alerts_pass cfg sh w))) ws))"
proof (intro conjI allI impI)
  assume n: "telegram w m = NetworkError"
  with assms(7-10) have "get_nft_alerts_item cfg w b it =
      ([Info (Set_Ratio (ratio cfg)), Info (Condition_matched m True),
        Info (Sending_Telegram_message m), HttpGet m], Inl ConnectionError)"
    by (simp add: get_nft_alerts_item_def send_telegram_msg_def Let_def)
  from pass_raised_in_items [OF assms(1-6) this, of sh]
  show p: "get_nft_alerts_pass cfg sh w =
              \<lparr>events = [Info Getting_trait_balance, Sleep 5, Info Waiting_for_items, Sleep 3] @ ev
                         @ [Info (Set_Ratio (ratio cfg)), Info (Condition_matched m True),
                            Info (Sending_Telegram_message m), HttpGet m],
               sheets = [], ending = Raised ConnectionError\<rparr>" .
  then have "ending (get_nft_alerts_pass cfg sh w) = Raised ConnectionError"
    by simp
  then show "get_nft_alerts_loop cfg sh (w # ws) = [get_nft_alerts_pass cfg sh w]"
    by (rule raised_pass_ends_loop)
  from p items_store_calls [OF assms(6)]
  show "store_calls (events (get_nft_alerts_pass cfg sh w)) = []"
    by (simp add: store_calls_append)
next
  fix code
  assume n: "telegram w m = Response code None"
  with assms(7-10) have "get_nft_alerts_item cfg w b it =
      ([Info (Set_Ratio (ratio cfg)), Info (Condition_matched m True),
        Info (Sending_Telegram_message m), HttpGet m, Info Telegram_message_sent],
       Inl JSONDecodeError)"
    by (simp add: get_nft_alerts_item_def send_telegram_msg_def Let_def)
  from pass_raised_in_items [OF assms(1-6) this, of sh]
  show p: "get_nft_alerts_pass cfg sh w =
              \<lparr>events = [Info Getting_trait_balance, Sleep 5, Info Waiting_for_items, Sleep 3] @ ev
                         @ [Info (Set_Ratio (ratio cfg)), Info (Condition_matched m True),
                            Info (Sending_Telegram_message m), HttpGet m, Info Telegram_message_sent],
               sheets = [], ending = Raised JSONDecodeError\<rparr>" .
  then have "ending (get_nft_alerts_pass cfg sh w) = Raised JSONDecodeError"
    by simp
  then show "get_nft_alerts_loop cfg sh (w # ws) = [get_nft_alerts_pass cfg sh w]"
    by (rule raised_pass_ends_loop)
  from p items_store_calls [OF assms(6)]
  show "store_calls (events (get_nft_alerts_pass cfg sh w)) = []"
    by (simp add: store_calls_append)
next
  fix code j
  assume n: "telegram w m = Response code (Some j)"
  from item_delivered [OF assms(7-10) n] items_append [OF assms(6), of "[it]"]
  show "get_nft_alerts_items cfg w b (pre @ [it]) no_columns =
              (ev @ [Info (Set_Ratio (ratio cfg)), Info (Condition_matched m True),
                     Info (Sending_Telegram_message m), HttpGet m, Info Telegram_message_sent],
               Inr \<lparr>listing_prices = listing_prices cs @ [p],
                    trait_balances = trait_balances cs @ [b],
                    listing_urls = listing_urls cs @ [u]\<rparr>)"
    by simp
next
  fix code j ev2 cs2
  let ?cs' = "\<lparr>listing_prices = listing_prices cs @ [p],
               trait_balances = trait_balances cs @ [b],
               listing_urls = listing_urls cs @ [u]\<rparr>"
  let ?hdr = "[Info Getting_trait_balance, Sleep 5, Info Waiting_for_items, Sleep 3]"
  let ?sent = "[Info (Set_Ratio (ratio cfg)), Info (Condition_matched m True),
                Info (Sending_Telegram_message m), HttpGet m, Info Telegram_message_sent]"
  assume n: "telegram w m = Response code (Some j)"
    and rest: "get_nft_alerts_items cfg w b post ?cs' = (ev2, Inr cs2) \<and> publish_unhindered w"
  note step = item_delivered [OF assms(7-10) n]
  from items_append [OF assms(6), of "it # post"] step rest assms(5)
  have all: "get_nft_alerts_items cfg w b (articles w) no_columns = (ev @ ?sent @ ev2, Inr cs2)"
    by simp
  with assms(1-4) have c: "get_nft_alerts_collect cfg w = (?hdr @ ev @ ?sent @ ev2, Inr (b, cs2))"
    by (simp add: get_nft_alerts_collect_def)
  from assms(5) have ne: "articles w \<noteq> []"
    by simp
  from rest have un: "publish_unhindered w"
    and post: "get_nft_alerts_items cfg w b post ?cs' = (ev2, Inr cs2)"
    by simp_all
  note pub = pass_published [OF c un ne, of sh]
  from pub
  show p: "get_nft_alerts_pass cfg sh w =
                    \<lparr>events = ?hdr @ ev @ ?sent @ ev2 @ fst (update_spreadsheet cfg w sh cs2)
                               @ [Info (Stats_updated (spread_sheet cfg))],
                     sheets = fst (snd (update_spreadsheet cfg w sh cs2)), ending = Published\<rparr>"
    by simp
  from pub show "store_calls (events (get_nft_alerts_pass cfg sh w)) = publish_calls"
    by blast
  from pass_alerts [OF c, of sh] items_alerts [OF assms(6)] items_alerts [OF post]
  show "alerts (events (get_nft_alerts_pass cfg sh w)) = due_alerts cfg b pre @ m # due_alerts cfg b post"
    by (simp add: alerts_append)
  from items_columns [OF post]
  show "\<exists>ps us. listing_prices cs2 = listing_prices cs @ p # ps
                           \<and> listing_urls cs2 = listing_urls cs @ u # us"
    by auto
  from p have "continues (ending (get_nft_alerts_pass cfg sh w))"
    by (simp add: continues_def)
  moreover from pub have "sheets (get_nft_alerts_pass cfg sh w) \<noteq> []"
    by blast
  ultimately show "get_nft_alerts_loop cfg sh (w # ws)
                    = get_nft_alerts_pass cfg sh w
                      # get_nft_alerts_loop cfg (last (sheets (get_nft_alerts_pass cfg sh w))) ws"
    by (simp add: Let_def)
qed

theorem dispatch_failure_policy_witness:
  "telegram ((market [listed ''4000'' ''a'', listed ''2000'' ''c''])\<lparr>telegram := (\<lambda>m. NetworkError)\<rparr>)
      \<lparr>Listing_Price = 4000, Account_Value = 100000, Ratio = 25, Link = Some ''a''\<rparr> = NetworkError
   \<and> ending (get_nft_alerts_pass sample_settings blank_sheet
        ((market [listed ''4000'' ''a'', listed ''2000'' ''c''])\<lparr>telegram := (\<lambda>m. NetworkError)\<rparr>))
       = Raised ConnectionError
   \<and> get_nft_alerts_loop sample_settings blank_sheet
        ((market [listed ''4000'' ''a'', listed ''2000'' ''c''])\<lparr>telegram := (\<lambda>m. NetworkError)\<rparr>
         # [market [listed ''2000'' ''c'']])
       = [get_nft_alerts_pass sample_settings blank_sheet
           ((market [listed ''4000'' ''a'', listed ''2000'' ''c''])\<lparr>telegram := (\<lambda>m. NetworkError)\<rparr>)]
   \<and> telegram ((market [listed ''4000'' ''a'', listed ''2000'' ''c''])
                  \<lparr>telegram := (\<lambda>m. Response 500 (Some ''error''))\<rparr>)
      \<lparr>Listing_Price = 4000, Account_Value = 100000, Ratio = 25, Link = Some ''a''\<rparr>
       = Response 500 (Some ''error'')
   \<and> publish_unhindered ((market [listed ''4000'' ''a'', listed ''2000'' ''c''])
                  \<lparr>telegram := (\<lambda>m. Response 500 (Some ''error''))\<rparr>)
   \<and> ending (get_nft_alerts_pass sample_settings blank_sheet
        ((market [listed ''4000'' ''a'', listed ''2000'' ''c''])
           \<lparr>telegram := (\<lambda>m. Response 500 (Some ''error''))\<rparr>)) = Published
   \<and> alerts (events (get_nft_alerts_pass sample_settings blank_sheet
        ((market [listed ''4000'' ''a'', listed ''2000'' ''c''])
           \<lparr>telegram := (\<lambda>m. Response 500 (Some ''error''))\<rparr>)))
       = [\<lparr>Listing_Price = 4000, Account_Value = 100000, Ratio = 25, Link = Some ''a''\<rparr>,
          \<lparr>Listing_Price = 2000, Account_Value = 100000, Ratio = 50, Link = Some ''c''\<rparr>]
   \<and> store_calls (events (get_nft_alerts_pass sample_settings blank_sheet
        ((market [listed ''4000'' ''a'', listed ''2000'' ''c''])
           \<lparr>telegram := (\<lambda>m. Response 500 (Some ''error''))\<rparr>)))
       = publish_calls"
proof -
  let ?m = "\<lparr>Listing_Price = 4000, Account_Value = 100000, Ratio = 25, Link = Some ''a''\<rparr>"
  let ?c = "\<lparr>Listing_Price = 2000, Account_Value = 100000, Ratio = 50, Link = Some ''c''\<rparr>"
  let ?w1 = "(market [listed ''4000'' ''a'', listed ''2000'' ''c''])\<lparr>telegram := (\<lambda>m. NetworkError)\<rparr>"
  let ?w2 = "(market [listed ''4000'' ''a'', listed ''2000'' ''c''])
               \<lparr>telegram := (\<lambda>m. Response 500 (Some ''error''))\<rparr>"
  let ?cs' = "\<lparr>listing_prices = listing_prices no_columns @ [4000],
               trait_balances = trait_balances no_columns @ [100000],
               listing_urls = listing_urls no_columns @ [Some ''a'']\<rparr>"
  let ?cs2 = "\<lparr>listing_prices = [4000, 2000], trait_balances = [100000, 100000],
               listing_urls = [Some ''a'', Some ''c'']\<rparr>"
  let ?ev2 = "[Info (Set_Ratio 20), Info (Condition_matched ?c True),
               Info (Sending_Telegram_message ?c), HttpGet ?c, Info Telegram_message_sent]"
  have h: "balance_visible w" "balance_text w = Some ''100000''" "py_int ''100000'' = Some 100000"
    "items_visible w"
    "articles w = [] @ listed ''4000'' ''a'' # [listed ''2000'' ''c'']"
    "get_nft_alerts_items sample_settings w 100000 [] no_columns = ([], Inr no_columns)"
    "get_listing sample_settings (listed ''4000'' ''a'') = Inr (4000, Some ''a'')"
    "get_ratio 100000 4000 = Inr 25"
    "ratio sample_settings \<le> 25"
    "?m = \<lparr>Listing_Price = 4000, Account_Value = 100000, Ratio = 25, Link = Some ''a''\<rparr>"
    if "w = ?w1 \<or> w = ?w2" for w
    using that by (auto simp: get_listing_def text_defs ratio_defs sample_defs)
  have t1: "telegram ?w1 ?m = NetworkError" and t2: "telegram ?w2 ?m = Response 500 (Some ''error'')"
    by (simp_all add: market_def)
  have un: "publish_unhindered ?w2"
    by (simp add: publish_unhindered_def publish_calls_def market_def)
  have post: "get_nft_alerts_items sample_settings ?w2 100000 [listed ''2000'' ''c''] ?cs' = (?ev2, Inr ?cs2)"
    by (simp add: text_defs ratio_defs sample_defs pass_defs)
  have due: "due_alerts sample_settings 100000 [] @ ?m # due_alerts sample_settings 100000 [listed ''2000'' ''c'']
               = [?m, ?c]"
    by (simp add: get_listing_def text_defs ratio_defs sample_defs)
  note a = dispatch_failure_policy [OF h [of ?w1], of blank_sheet "[market [listed ''2000'' ''c'']]"]
  note b = dispatch_failure_policy [OF h [of ?w2], of blank_sheet "[]"]
  from a t1 have p: "get_nft_alerts_pass sample_settings blank_sheet ?w1 =
              \<lparr>events = [Info Getting_trait_balance, Sleep 5, Info Waiting_for_items, Sleep 3] @ []
                         @ [Info (Set_Ratio (ratio sample_settings)), Info (Condition_matched ?m True),
                            Info (Sending_Telegram_message ?m), HttpGet ?m],
               sheets = [], ending = Raised ConnectionError\<rparr>"
      and l: "get_nft_alerts_loop sample_settings blank_sheet (?w1 # [market [listed ''2000'' ''c'']])
               = [get_nft_alerts_pass sample_settings blank_sheet ?w1]"
    by blast+
  from p have e: "ending (get_nft_alerts_pass sample_settings blank_sheet ?w1) = Raised ConnectionError"
    by simp
  from b t2 post un have
    q: "get_nft_alerts_pass sample_settings blank_sheet ?w2 =
          \<lparr>events = [Info Getting_trait_balance, Sleep 5, Info Waiting_for_items, Sleep 3] @ []
                     @ [Info (Set_Ratio (ratio sample_settings)), Info (Condition_matched ?m True),
                        Info (Sending_Telegram_message ?m), HttpGet ?m, Info Telegram_message_sent]
                     @ ?ev2 @ fst (update_spreadsheet sample_settings ?w2 blank_sheet ?cs2)
                     @ [Info (Stats_updated (spread_sheet sample_settings))],
           sheets = fst (snd (update_spreadsheet sample_settings ?w2 blank_sheet ?cs2)),
           ending = Published\<rparr>" and
    al: "alerts (events (get_nft_alerts_pass sample_settings blank_sheet ?w2))
          = due_alerts sample_settings 100000 [] @ ?m # due_alerts sample_settings 100000 [listed ''2000'' ''c'']" and
    sc: "store_calls (events (get_nft_alerts_pass sample_settings blank_sheet ?w2)) = publish_calls"
    by blast+
  from q have e2: "ending (get_nft_alerts_pass sample_settings blank_sheet ?w2) = Published"
    by simp
  from al due have al': "alerts (events (get_nft_alerts_pass sample_settings blank_sheet ?w2)) = [?m, ?c]"
    by simp
  show ?thesis
    using t1 e l t2 un e2 al' sc by (intro conjI)
qed

subsection \<open>A publish that cannot be completed\<close>

text \<open>
  \<^bold>\<open>C3\<close>, as stated: a failed publish is fatal for its cycle only, and the next cycle runs
  normally. It does not hold: when opening the spreadsheet fails, the exception leaves
  \<^verbatim>\<open>update_spreadsheet\<close> and \<^verbatim>\<open>get_nft_alerts\<close>; the run consists of this one pass and the
  second world is never visited.
\<close>

theorem publish_failure_counterexample:
  "get_nft_alerts_loop sample_settings blank_sheet
     [(market [listed ''6000'' ''b''])\<lparr>store_fails := (\<lambda>c. c = OpenSheet)\<rparr>,
      market [listed ''6000'' ''b'']]
   = [\<lparr>events =
         [Info Getting_trait_balance, Sleep 5, Info Waiting_for_items, Sleep 3,
          Info (Set_Ratio 20),
          Info (Condition_matched
                 \<lparr>Listing_Price = 6000, Account_Value = 100000, Ratio = 1667 / 100, Link = Some ''b''\<rparr>
                 False),
          Info (Updating_Spreadsheet ''YN Ratio Sheet''), Store OpenSheet],
       sheets = [], ending = Raised APIError\<rparr>]"
  by (simp add: text_defs ratio_defs sample_defs pass_defs update_spreadsheet_def)

text \<open>
  \<^bold>\<open>C3\<close>, amended: if a call to the sheet fails while a non-empty snapshot is published, the
  exception is not caught. The pass ends with that error, the calls made to the sheet are
  those up to and including the failing one, each made once (nothing is retried), and the
  run ends with this pass: no later pass is made.
\<close>

theorem publish_failure_ends_run:
  assumes "get_nft_alerts_collect cfg w = (ev, Inr (b, cs))" and "articles w \<noteq> []"
    and "c \<in> set publish_calls" and "store_fails w c"
  shows "ending (get_nft_alerts_pass cfg sh w) = Raised APIError
       \<and> store_calls (events (get_nft_alerts_pass cfg sh w)) = calls_until_failure w
       \<and> distinct (store_calls (events (get_nft_alerts_pass cfg sh w)))
       \<and> get_nft_alerts_loop cfg sh (w # ws) = [get_nft_alerts_pass cfg sh w]"
proof -
  from collect_lengths [OF assms(1)] have
    l: "length (trait_balances cs) = length (listing_prices cs)"
       "length (listing_urls cs) = length (listing_prices cs)" and
    n: "length (listing_prices cs) = length (articles w)" and
    quiet: "store_calls ev = []"
    by simp_all
  from n assms(2) have ne: "listing_prices cs \<noteq> []"
    by auto
  from l have df: "DataFrame cs = Inr cs"
    by (simp add: DataFrame_def)
  from update_spreadsheet_fails [OF l assms(3,4) ne, of cfg sh] obtain ev' shs where
    u: "update_spreadsheet cfg w sh cs = (ev', shs, Some APIError)" and
    calls: "store_calls ev' = calls_until_failure w"
    by blast
  from assms(1) df u have p: "get_nft_alerts_pass cfg sh w =
      \<lparr>events = ev @ ev', sheets = shs, ending = Raised APIError\<rparr>"
    by (simp add: get_nft_alerts_pass_def)
  then have "ending (get_nft_alerts_pass cfg sh w) = Raised APIError"
    by simp
  from raised_pass_ends_loop [OF this]
  have "get_nft_alerts_loop cfg sh (w # ws) = [get_nft_alerts_pass cfg sh w]" .
  with p quiet calls distinct_calls_until_failure [of w] show ?thesis
    by (simp add: store_calls_append)
qed

theorem publish_failure_ends_run_witness:
  "get_nft_alerts_collect sample_settings
      ((market [listed ''6000'' ''b''])\<lparr>store_fails := (\<lambda>c. c = UpdateCells 2)\<rparr>)
     = ([Info Getting_trait_balance, Sleep 5, Info Waiting_for_items, Sleep 3,
         Info (Set_Ratio 20),
         Info (Condition_matched
                \<lparr>Listing_Price = 6000, Account_Value = 100000, Ratio = 1667 / 100, Link = Some ''b''\<rparr>
                False)],
        Inr (100000, \<lparr>listing_prices = [6000], trait_balances = [100000], listing_urls = [Some ''b'']\<rparr>))
   \<and> articles ((market [listed ''6000'' ''b''])\<lparr>store_fails := (\<lambda>c. c = UpdateCells 2)\<rparr>) \<noteq> []
   \<and> UpdateCells 2 \<in> set publish_calls
   \<and> store_fails ((market [listed ''6000'' ''b''])\<lparr>store_fails := (\<lambda>c. c = UpdateCells 2)\<rparr>) (UpdateCells 2)
   \<and> ending (get_nft_alerts_pass sample_settings blank_sheet
        ((market [listed ''6000'' ''b''])\<lparr>store_fails := (\<lambda>c. c = UpdateCells 2)\<rparr>)) = Raised APIError
   \<and> store_calls (events (get_nft_alerts_pass sample_settings blank_sheet
        ((market [listed ''6000'' ''b''])\<lparr>store_fails := (\<lambda>c. c = UpdateCells 2)\<rparr>)))
       = [OpenSheet, GetWorksheet, GetRange 1, GetRange 2, GetRange 3, UpdateCells 1, UpdateCells 2]
   \<and> get_nft_alerts_loop sample_settings blank_sheet
        ((market [listed ''6000'' ''b''])\<lparr>store_fails := (\<lambda>c. c = UpdateCells 2)\<rparr>
         # [market [listed ''6000'' ''b'']])
       = [get_nft_alerts_pass sample_settings blank_sheet
           ((market [listed ''6000'' ''b''])\<lparr>store_fails := (\<lambda>c. c = UpdateCells 2)\<rparr>)]"
proof -
  let ?w = "(market [listed ''6000'' ''b''])\<lparr>store_fails := (\<lambda>c. c = UpdateCells 2)\<rparr>"
  have c: "get_nft_alerts_collect sample_settings ?w
     = ([Info Getting_trait_balance, Sleep 5, Info Waiting_for_items, Sleep 3,
         Info (Set_Ratio 20),
         Info (Condition_matched
                \<lparr>Listing_Price = 6000, Account_Value = 100000, Ratio = 1667 / 100, Link = Some ''b''\<rparr>
                False)],
        Inr (100000, \<lparr>listing_prices = [6000], trait_balances = [100000], listing_urls = [Some ''b'']\<rparr>))"
    by (simp add: text_defs ratio_defs sample_defs pass_defs)
  have a: "articles ?w \<noteq> []"
    by (simp add: market_def)
  have m: "UpdateCells 2 \<in> set publish_calls"
    by (simp add: publish_calls_def)
  have f: "store_fails ?w (UpdateCells 2)"
    by (simp add: market_def)
  have u: "calls_until_failure ?w
      = [OpenSheet, GetWorksheet, GetRange 1, GetRange 2, GetRange 3, UpdateCells 1, UpdateCells 2]"
    by (simp add: calls_until_failure_def publish_calls_def market_def)
  from publish_failure_ends_run [OF c a m f, of blank_sheet "[market [listed ''6000'' ''b'']]"] c a m f u
  show ?thesis
    by metis
qed


subsection \<open>What a viewer of the sheet can see\<close>

text \<open>
  \<^bold>\<open>C7\<close>, as stated: the three columns are written as one batch, so that a viewer never
  sees one column of the new snapshot beside another column of the previous one. It does
  not hold: after the first of the three \<^verbatim>\<open>update_cells\<close> calls row 2 shows the new price
  beside the balance and the link of the previous snapshot.
\<close>

theorem publish_partial_view_counterexample:
  "(sheets (get_nft_alerts_pass sample_settings old_sheet (market [listed ''4000'' ''a''])) ! 0) (2, 1)
     = Number 4000
   \<and> (sheets (get_nft_alerts_pass sample_settings old_sheet (market [listed ''4000'' ''a''])) ! 0) (2, 2)
     = Whole 70000
   \<and> (sheets (get_nft_alerts_pass sample_settings old_sheet (market [listed ''4000'' ''a''])) ! 0) (2, 3)
     = Text ''https://opensea.io/a/9''"
  by (simp add: text_defs ratio_defs sample_defs pass_defs update_spreadsheet_def
      range_cells_def update_cells_def)

text \<open>
  \<^bold>\<open>C7\<close>, amended: publishing a snapshot of \<open>N \<ge> 1\<close> rows, with no call to the sheet
  failing, makes three batch updates in a row, one per column: first the prices into
  column 1, then the balances into column 2, then the links into column 3, each into rows
  2 to \<open>N + 1\<close> and nowhere else. Between the updates the sheet shows the columns already
  written beside the earlier contents of the others; after the third, rows 2 to \<open>N + 1\<close>
  hold the snapshot.
\<close>

theorem publish_writes_column_by_column:
  assumes "length (trait_balances df) = length (listing_prices df)"
    and "length (listing_urls df) = length (listing_prices df)"
    and "listing_prices df \<noteq> []"
    and "publish_unhindered w"
  shows "\<exists>s1 s2 s3.
           update_spreadsheet cfg w sh df =
             ([Info (Updating_Spreadsheet (spread_sheet cfg)),
               Store OpenSheet, Store GetWorksheet,
               Store (GetRange 1), Store (GetRange 2), Store (GetRange 3),
               Store (UpdateCells 1), Store (UpdateCells 2), Store (UpdateCells 3),
               Info (Updated_SpreadSheet (spread_sheet cfg) (work_sheet cfg))],
              [s1, s2, s3], None)
         \<and> (\<forall>r c. s1 (r, c) =
               (if c = 1 \<and> 2 \<le> r \<and> r \<le> length (listing_prices df) + 1
                then Number (listing_prices df ! (r - 2)) else sh (r, c)))
         \<and> (\<forall>r c. s2 (r, c) =
               (if c = 2 \<and> 2 \<le> r \<and> r \<le> length (listing_prices df) + 1
                then Whole (trait_balances df ! (r - 2)) else s1 (r, c)))
         \<and> (\<forall>r c. s3 (r, c) =
               (if c = 3 \<and> 2 \<le> r \<and> r \<le> length (listing_prices df) + 1
                then url_value (listing_urls df ! (r - 2)) else s2 (r, c)))"
proof -
  let ?n = "length (listing_prices df)"
  from assms(3) have "1 \<le> ?n"
    by (cases "listing_prices df") simp_all
  from update_spreadsheet_ok [OF assms(1,2,4) refl this, of cfg sh] obtain d1 d2 d3 where
    u: "update_spreadsheet cfg w sh df =
             ([Info (Updating_Spreadsheet (spread_sheet cfg)),
               Store OpenSheet, Store GetWorksheet,
               Store (GetRange 1), Store (GetRange 2), Store (GetRange 3),
               Store (UpdateCells 1), Store (UpdateCells 2), Store (UpdateCells 3),
               Info (Updated_SpreadSheet (spread_sheet cfg) (work_sheet cfg))],
              [update_cells sh d1,
               update_cells (update_cells sh d1) d2,
               update_cells (update_cells (update_cells sh d1) d2) d3],
              None)" and
    l: "length d1 = ?n" "length d2 = ?n" "length d3 = ?n" and
    d1: "\<forall>j < ?n. d1 ! j = \<lparr>cell_row = j + 2, cell_col = 1, cell_val = Number (listing_prices df ! j)\<rparr>" and
    d2: "\<forall>j < ?n. d2 ! j = \<lparr>cell_row = j + 2, cell_col = 2, cell_val = Whole (trait_balances df ! j)\<rparr>" and
    d3: "\<forall>j < ?n. d3 ! j = \<lparr>cell_row = j + 2, cell_col = 3, cell_val = url_value (listing_urls df ! j)\<rparr>"
    by blast
  have s1: "\<forall>r c. update_cells sh d1 (r, c) =
               (if c = 1 \<and> 2 \<le> r \<and> r \<le> ?n + 1
                then Number (listing_prices df ! (r - 2)) else sh (r, c))"
    using update_cells_written [OF l(1) d1] by blast
  have s2: "\<forall>r c. update_cells (update_cells sh d1) d2 (r, c) =
               (if c = 2 \<and> 2 \<le> r \<and> r \<le> ?n + 1
                then Whole (trait_balances df ! (r - 2)) else update_cells sh d1 (r, c))"
    using update_cells_written [OF l(2) d2] by blast
  have s3: "\<forall>r c. update_cells (update_cells (update_cells sh d1) d2) d3 (r, c) =
               (if c = 3 \<and> 2 \<le> r \<and> r \<le> ?n + 1
                then url_value (listing_urls df ! (r - 2))
                else update_cells (update_cells sh d1) d2 (r, c))"
    using update_cells_written [OF l(3) d3] by blast
  from u s1 s2 s3 show ?thesis
    by blast
qed

theorem publish_writes_column_by_column_witness:
  "publish_unhindered (market [])
   \<and> (\<exists>s1 s2 s3.
         update_spreadsheet sample_settings (market []) old_sheet
           \<lparr>listing_prices = [4000], trait_balances = [100000], listing_urls = [Some ''a'']\<rparr>
         = ([Info (Updating_Spreadsheet ''YN Ratio Sheet''),
             Store OpenSheet, Store GetWorksheet,
             Store (GetRange 1), Store (GetRange 2), Store (GetRange 3),
             Store (UpdateCells 1), Store (UpdateCells 2), Store (UpdateCells 3),
             Info (Updated_SpreadSheet ''YN Ratio Sheet'' ''Sheet1'')],
            [s1, s2, s3], None)
       \<and> s1 (2, 1) = Number 4000 \<and> s1 (2, 2) = Whole 70000 \<and> s1 (2, 3) = Text ''https://opensea.io/a/9''
       \<and> s2 (2, 1) = Number 4000 \<and> s2 (2, 2) = Whole 100000 \<and> s2 (2, 3) = Text ''https://opensea.io/a/9''
       \<and> s3 (2, 1) = Number 4000 \<and> s3 (2, 2) = Whole 100000 \<and> s3 (2, 3) = Text ''a''
       \<and> s3 (3, 1) = Blank)"
proof -
  let ?df = "\<lparr>listing_prices = [4000], trait_balances = [100000], listing_urls = [Some ''a'']\<rparr>"
  have h: "length (trait_balances ?df) = length (listing_prices ?df)"
    "length (listing_urls ?df) = length (listing_prices ?df)"
    "listing_prices ?df \<noteq> []"
    "publish_unhindered (market [])"
    by (simp_all add: publish_unhindered_def publish_calls_def market_def)
  from publish_writes_column_by_column [OF h, of sample_settings old_sheet] obtain s1 s2 s3 where
    u: "update_spreadsheet sample_settings (market []) old_sheet ?df =
             ([Info (Updating_Spreadsheet (spread_sheet sample_settings)),
               Store OpenSheet, Store GetWorksheet,
               Store (GetRange 1), Store (GetRange 2), Store (GetRange 3),
               Store (UpdateCells 1), Store (UpdateCells 2), Store (UpdateCells 3),
               Info (Updated_SpreadSheet (spread_sheet sample_settings) (work_sheet sample_settings))],
              [s1, s2, s3], None)" and
    s1: "\<And>r c. s1 (r, c) =
               (if c = 1 \<and> 2 \<le> r \<and> r \<le> length (listing_prices ?df) + 1
                then Number (listing_prices ?df ! (r - 2)) else old_sheet (r, c))" and
    s2: "\<And>r c. s2 (r, c) =
               (if c = 2 \<and> 2 \<le> r \<and> r \<le> length (listing_prices ?df) + 1
                then Whole (trait_balances ?df ! (r - 2)) else s1 (r, c))" and
    s3: "\<And>r c. s3 (r, c) =
               (if c = 3 \<and> 2 \<le> r \<and> r \<le> length (listing_prices ?df) + 1
                then url_value (listing_urls ?df ! (r - 2)) else s2 (r, c))"
    by blast
  have "s1 (2, 1) = Number 4000 \<and> s1 (2, 2) = Whole 70000 \<and> s1 (2, 3) = Text ''https://opensea.io/a/9''
       \<and> s2 (2, 1) = Number 4000 \<and> s2 (2, 2) = Whole 100000 \<and> s2 (2, 3) = Text ''https://opensea.io/a/9''
       \<and> s3 (2, 1) = Number 4000 \<and> s3 (2, 2) = Whole 100000 \<and> s3 (2, 3) = Text ''a''
       \<and> s3 (3, 1) = Blank"
    by (simp add: s1 s2 s3 old_sheet_def blank_sheet_def url_value_def)
  with u h(4) show ?thesis
    by (auto simp: sample_settings_def)
qed

end
